theory Spec2Isabelle
  imports Complex_Main "HOL-Library.Char_ord" "HOL-Library.List_Lexorder"
begin

section \<open>Strings and numbers\<close>

text \<open>
  A JavaScript string is a sequence of UTF-16 code units; it is modelled as a HOL
  \<open>string\<close>, whose characters stand for the code units below 256 (ASCII and Latin-1). On
  these, \<open>toLowerCase\<close> maps \<open>A\<close>..\<open>Z\<close> and the capital letters \<open>U+00C0\<close>..\<open>U+00DE\<close> (all
  but the multiplication sign \<open>U+00D7\<close>) to the letter 32 above and leaves every other
  character alone, and \<open>trim\<close> strips the white space and line terminators of the range
  (tab, line feed, vertical tab, form feed, carriage return, space, no-break space) from
  both ends. \<open>str_includes\<close> (the method \<open>includes\<close>) is the contiguous-substring test.
\<close>

definition toLowerCase_char :: "char \<Rightarrow> char" where
  "toLowerCase_char c =
     (case map_of
             (zip (''ABCDEFGHIJKLMNOPQRSTUVWXYZ''
                   @ [CHR 0xC0, CHR 0xC1, CHR 0xC2, CHR 0xC3, CHR 0xC4, CHR 0xC5, CHR 0xC6,
                      CHR 0xC7, CHR 0xC8, CHR 0xC9, CHR 0xCA, CHR 0xCB, CHR 0xCC, CHR 0xCD,
                      CHR 0xCE, CHR 0xCF, CHR 0xD0, CHR 0xD1, CHR 0xD2, CHR 0xD3, CHR 0xD4,
                      CHR 0xD5, CHR 0xD6, CHR 0xD8, CHR 0xD9, CHR 0xDA, CHR 0xDB, CHR 0xDC,
                      CHR 0xDD, CHR 0xDE])
                  (''abcdefghijklmnopqrstuvwxyz''
                   @ [CHR 0xE0, CHR 0xE1, CHR 0xE2, CHR 0xE3, CHR 0xE4, CHR 0xE5, CHR 0xE6,
                      CHR 0xE7, CHR 0xE8, CHR 0xE9, CHR 0xEA, CHR 0xEB, CHR 0xEC, CHR 0xED,
                      CHR 0xEE, CHR 0xEF, CHR 0xF0, CHR 0xF1, CHR 0xF2, CHR 0xF3, CHR 0xF4,
                      CHR 0xF5, CHR 0xF6, CHR 0xF8, CHR 0xF9, CHR 0xFA, CHR 0xFB, CHR 0xFC,
                      CHR 0xFD, CHR 0xFE])) c of
        Some d \<Rightarrow> d
      | None \<Rightarrow> c)"

definition toLowerCase :: "string \<Rightarrow> string" where
  "toLowerCase s = map toLowerCase_char s"

definition isWhiteSpace :: "char \<Rightarrow> bool" where
  "isWhiteSpace c =
     (c \<in> set [CHR 0x09, CHR 0x0A, CHR 0x0B, CHR 0x0C, CHR 0x0D, CHR '' '', CHR 0xA0])"

definition trim :: "string \<Rightarrow> string" where
  "trim s = rev (dropWhile isWhiteSpace (rev (dropWhile isWhiteSpace s)))"

fun startsWith :: "string \<Rightarrow> string \<Rightarrow> bool" where
  "startsWith s [] = True"
| "startsWith [] (q # qs) = False"
| "startsWith (c # cs) (q # qs) = (c = q \<and> startsWith cs qs)"

fun str_includes :: "string \<Rightarrow> string \<Rightarrow> bool" where
  "str_includes [] q = (q = [])"
| "str_includes (c # cs) q = (startsWith (c # cs) q \<or> str_includes cs q)"

text \<open>JavaScript truthiness of an optional string: \<open>undefined\<close> and \<open>""\<close> are falsy.\<close>

fun truthy :: "string option \<Rightarrow> bool" where
  "truthy None = False"
| "truthy (Some s) = (s \<noteq> [])"

text \<open>
  \<open>status.charAt(0).toUpperCase() + status.slice(1)\<close>, as \<open>printSummary\<close> prints a status.
  The capital of \<open>U+00DF\<close> is \<open>SS\<close>; the capitals of \<open>U+00B5\<close> and \<open>U+00FF\<close> lie above code
  unit 255 and are left out.
\<close>

definition toUpperCase_char :: "char \<Rightarrow> string" where
  "toUpperCase_char c =
     (if c = CHR 0xDF then ''SS''
      else case map_of
             (zip (''abcdefghijklmnopqrstuvwxyz''
                   @ [CHR 0xE0, CHR 0xE1, CHR 0xE2, CHR 0xE3, CHR 0xE4, CHR 0xE5, CHR 0xE6,
                      CHR 0xE7, CHR 0xE8, CHR 0xE9, CHR 0xEA, CHR 0xEB, CHR 0xEC, CHR 0xED,
                      CHR 0xEE, CHR 0xEF, CHR 0xF0, CHR 0xF1, CHR 0xF2, CHR 0xF3, CHR 0xF4,
                      CHR 0xF5, CHR 0xF6, CHR 0xF8, CHR 0xF9, CHR 0xFA, CHR 0xFB, CHR 0xFC,
                      CHR 0xFD, CHR 0xFE])
                  (''ABCDEFGHIJKLMNOPQRSTUVWXYZ''
                   @ [CHR 0xC0, CHR 0xC1, CHR 0xC2, CHR 0xC3, CHR 0xC4, CHR 0xC5, CHR 0xC6,
                      CHR 0xC7, CHR 0xC8, CHR 0xC9, CHR 0xCA, CHR 0xCB, CHR 0xCC, CHR 0xCD,
                      CHR 0xCE, CHR 0xCF, CHR 0xD0, CHR 0xD1, CHR 0xD2, CHR 0xD3, CHR 0xD4,
                      CHR 0xD5, CHR 0xD6, CHR 0xD8, CHR 0xD9, CHR 0xDA, CHR 0xDB, CHR 0xDC,
                      CHR 0xDD, CHR 0xDE])) c of
             Some d \<Rightarrow> [d]
           | None \<Rightarrow> [c])"

fun capitalize :: "string \<Rightarrow> string" where
  "capitalize [] = []"
| "capitalize (c # cs) = toUpperCase_char c @ cs"

text \<open>\<open>String(n)\<close> for a count \<open>n\<close>: its decimal digits.\<close>

definition digit :: "nat \<Rightarrow> char" where
  "digit n = ''0123456789'' ! n"

function decimal :: "nat \<Rightarrow> string" where
  "decimal n = (if n < 10 then [digit n] else decimal (n div 10) @ [digit (n mod 10)])"
  by pat_completeness auto
termination
  by (relation "measure id") auto

text \<open>
  A JavaScript \<open>number\<close>: a real number (every double is one), \<open>NaN\<close>, or one of the
  infinities. \<open><\<close> and \<open>>=\<close> are both false when an operand is \<open>NaN\<close>.
\<close>

datatype number = Number real | NaN | Infinity | NegInfinity

fun number_less :: "number \<Rightarrow> number \<Rightarrow> bool" where
  "number_less (Number a) (Number b) = (a < b)"
| "number_less NaN b = False"
| "number_less a NaN = False"
| "number_less a NegInfinity = False"
| "number_less NegInfinity b = True"
| "number_less Infinity b = False"
| "number_less a Infinity = True"

fun number_greater_eq :: "number \<Rightarrow> number \<Rightarrow> bool" where
  "number_greater_eq (Number a) (Number b) = (a \<ge> b)"
| "number_greater_eq NaN b = False"
| "number_greater_eq a NaN = False"
| "number_greater_eq a NegInfinity = True"
| "number_greater_eq NegInfinity b = False"
| "number_greater_eq Infinity b = True"
| "number_greater_eq a Infinity = False"

text \<open>
  \<open>xs[n]\<close> for an array \<open>xs\<close> and a number \<open>n\<close>: the property named by \<open>n\<close> is an element
  only when \<open>n\<close> is a non-negative integer below the length; otherwise the access gives
  \<open>undefined\<close>.
\<close>

fun array_index :: "number \<Rightarrow> nat option" where
  "array_index (Number r) =
     (if 0 \<le> r \<and> r = of_int \<lfloor>r\<rfloor> then Some (nat \<lfloor>r\<rfloor>) else None)"
| "array_index n = None"

definition array_get :: "'a list \<Rightarrow> number \<Rightarrow> (nat \<times> 'a) option" where
  "array_get xs n =
     (case array_index n of
        None \<Rightarrow> None
      | Some i \<Rightarrow> if i < length xs then Some (i, xs ! i) else None)"

section \<open>Job records (src/types/index.ts)\<close>

datatype JobStatus = FOUND | REVIEWED | APPLIED

fun status_value :: "JobStatus \<Rightarrow> string" where
  "status_value FOUND = ''found''"
| "status_value REVIEWED = ''reviewed''"
| "status_value APPLIED = ''applied''"

record note_entry =
  timestamp :: string
  note_text :: string

text \<open>
  \<open>JobData\<close> is \<open>Omit<Job, "status" | "lastUpdated">\<close>; \<open>Job\<close> extends it by the two fields
  the tracker assigns. The fields the tracker reads with \<open>?.\<close> or tests for absence
  (\<open>jobUrl\<close>, \<open>location\<close>, \<open>notes\<close>, \<open>jobBoard\<close>), and the ones the interface marks optional,
  are options. \<open>additionalInfo\<close> is an opaque \<open>Record<string, unknown>\<close>: the type parameter
  \<open>'i\<close>. The fields \<open>note\<close> and \<open>notes\<close> are named \<open>note_text\<close> and \<open>job_notes\<close> here.

  The type parameter \<open>'c\<close> is the type of the two required strings, \<open>company\<close> and
  \<open>jobTitle\<close>. The argument of \<open>addJob\<close> has them (\<open>'c = string\<close>). A record of the collection
  may lack them, since \<open>loadData\<close> takes whatever array the data file holds
  (\<open>'c = string option\<close>); calling \<open>toLowerCase\<close> on a field that is absent throws a
  \<open>TypeError\<close>.
\<close>

record ('c, 'i) JobData =
  company :: 'c
  jobTitle :: 'c
  location :: "string option"
  jobUrl :: "string option"
  salaryRange :: string
  jobBoard :: "string option"
  additionalInfo :: "'i option"
  job_notes :: "note_entry list option"

record ('c, 'i) Job = "('c, 'i) JobData" +
  status :: JobStatus
  lastUpdated :: string

type_synonym 'i candidate = "(string, 'i) JobData"

type_synonym 'i job = "(string option, 'i) Job"

section \<open>The environment: the data file and the logger\<close>

text \<open>
  An error value is a Node \<open>ErrnoException\<close> with its \<open>code\<close>, the \<open>SyntaxError\<close> of
  \<open>JSON.parse\<close>, or a \<open>TypeError\<close>; the last two have no \<open>code\<close>.
\<close>

datatype error = ErrnoException string | SyntaxError | TypeError

fun code :: "error \<Rightarrow> string option" where
  "code (ErrnoException c) = Some c"
| "code SyntaxError = None"
| "code TypeError = None"

text \<open>
  The text of \<open>data/jobs.json\<close> is identified with the value \<open>JSON.parse\<close> gives for it:
  an array of job records, an object (its entries in the enumeration order of
  \<open>Object.values\<close>), another JSON value (a number, a string, a boolean, \<open>null\<close>), or text that
  is not JSON. \<open>JSON.stringify\<close> of a job list is the text of that array.
\<close>

datatype 'i parsed = JArray "'i job list" | JObject "(string \<times> 'i job) list" | JOther

datatype 'i file_text = Json "'i parsed" | Invalid

datatype 'i data_file = Missing | Unreadable string | Text "'i file_text"

fun readFile :: "'i data_file \<Rightarrow> error + 'i file_text" where
  "readFile Missing = Inl (ErrnoException ''ENOENT'')"
| "readFile (Unreadable c) = Inl (ErrnoException c)"
| "readFile (Text t) = Inr t"

fun JSON_parse :: "'i file_text \<Rightarrow> error + 'i parsed" where
  "JSON_parse (Json v) = Inr v"
| "JSON_parse Invalid = Inl SyntaxError"

definition JSON_stringify :: "'i job list \<Rightarrow> 'i file_text" where
  "JSON_stringify jobList = Json (JArray jobList)"

definition Object_values :: "(string \<times> 'i job) list \<Rightarrow> 'i job list" where
  "Object_values obj = map snd obj"

text \<open>
  One constructor per call of the logger in the job tracker, with the values it prints; a
  field that may be absent prints as an option.
\<close>

datatype log_entry =
    Initialized nat
  | Migrating
  | ErrorLoading error
  | Saved nat
  | ErrorSaving error
  | JobExists int string string
  | JobFound string string
  | JobAdded int
  | IndexOutOfRange number
  | JobApplied "string option" "string option"
  | Updated number JobStatus JobStatus
  | NoteFor number string
  | AddedNote number
  | Separator
  | SummaryTitle
  | TotalJobsTracked nat
  | JobsByStatusTitle
  | StatusCount string nat
  | ApplicationsSubmitted nat

section \<open>The job tracker (lib/job-tracker)\<close>

text \<open>
  The state the methods act on: the two private fields of the \<open>JobTracker\<close> object, and its
  environment: the data file, whether writing it fails (\<open>write_error\<close> is the code of the
  error that \<open>mkdir\<close> or \<open>writeFile\<close> raises, \<open>None\<close> when both succeed) and the lines logged
  so far. A failed write leaves the file as it was.
\<close>

record 'i JobTracker =
  jobs :: "'i job list"
  initialized :: bool
  DATA_FILE :: "'i data_file"
  write_error :: "string option"
  logged :: "log_entry list"

text \<open>\<open>new JobTracker()\<close> in a given environment.\<close>

definition new_JobTracker :: "'i data_file \<Rightarrow> string option \<Rightarrow> 'i JobTracker" where
  "new_JobTracker f w =
     \<lparr>jobs = [], initialized = False, DATA_FILE = f, write_error = w, logged = []\<rparr>"

definition log :: "log_entry \<Rightarrow> 'i JobTracker \<Rightarrow> 'i JobTracker" where
  "log e s = s\<lparr>logged := logged s @ [e]\<rparr>"

text \<open>
  An \<open>async\<close> method returns its result, or the error it rejects with, together with the
  state it leaves.
\<close>

type_synonym ('i, 'a) async = "(error + 'a) \<times> 'i JobTracker"

definition saveDataInternal :: "'i job list \<Rightarrow> 'i JobTracker \<Rightarrow> ('i, unit) async" where
  "saveDataInternal jobList s =
     (case write_error s of
        None \<Rightarrow>
          (Inr (), log (Saved (length jobList)) (s\<lparr>DATA_FILE := Text (JSON_stringify jobList)\<rparr>))
      | Some c \<Rightarrow>
          (Inl (ErrnoException c), log (ErrorSaving (ErrnoException c)) s))"

definition saveData :: "'i JobTracker \<Rightarrow> ('i, unit) async" where
  "saveData s = saveDataInternal (jobs s) s"

text \<open>The \<open>try\<close> block of \<open>loadData\<close>, and \<open>loadData\<close> with its \<open>catch\<close>.\<close>

definition loadData_try :: "'i JobTracker \<Rightarrow> ('i, 'i job list) async" where
  "loadData_try s =
     (case readFile (DATA_FILE s) of
        Inl e \<Rightarrow> (Inl e, s)
      | Inr data \<Rightarrow>
          (case JSON_parse data of
             Inl e \<Rightarrow> (Inl e, s)
           | Inr (JArray js) \<Rightarrow> (Inr js, s)
           | Inr (JObject obj) \<Rightarrow>
               (let s1 = log Migrating s;
                    jobList = Object_values obj
                in case saveDataInternal jobList s1 of
                     (Inl e, s2) \<Rightarrow> (Inl e, s2)
                   | (Inr u, s2) \<Rightarrow> (Inr jobList, s2))
           | Inr JOther \<Rightarrow> (Inr [], s)))"

definition loadData :: "'i JobTracker \<Rightarrow> ('i, 'i job list) async" where
  "loadData s =
     (case loadData_try s of
        (Inr js, s1) \<Rightarrow> (Inr js, s1)
      | (Inl e, s1) \<Rightarrow>
          (if code e = Some ''ENOENT'' then (Inr [], s1)
           else (Inr [], log (ErrorLoading e) s1)))"

definition initialize :: "'i JobTracker \<Rightarrow> ('i, unit) async" where
  "initialize s =
     (if initialized s then (Inr (), s)
      else case loadData s of
             (Inl e, s1) \<Rightarrow> (Inl e, s1)
           | (Inr js, s1) \<Rightarrow>
               (Inr (), log (Initialized (length js)) (s1\<lparr>jobs := js, initialized := True\<rparr>)))"

text \<open>
  \<open>Array.prototype.findIndex\<close> and \<open>Array.prototype.filter\<close> with a callback that may
  throw: the elements are visited in order, and the first call that throws ends the
  method with that error. \<open>findIndex\<close> gives the first index whose element satisfies the
  callback, else \<open>-1\<close>.
\<close>

fun findIndex_from :: "int \<Rightarrow> ('a \<Rightarrow> error + bool) \<Rightarrow> 'a list \<Rightarrow> error + int" where
  "findIndex_from i p [] = Inr (- 1)"
| "findIndex_from i p (x # xs) =
     (case p x of
        Inl e \<Rightarrow> Inl e
      | Inr b \<Rightarrow> if b then Inr i else findIndex_from (i + 1) p xs)"

definition findIndex :: "('a \<Rightarrow> error + bool) \<Rightarrow> 'a list \<Rightarrow> error + int" where
  "findIndex p xs = findIndex_from 0 p xs"

fun array_filter :: "('a \<Rightarrow> error + bool) \<Rightarrow> 'a list \<Rightarrow> error + 'a list" where
  "array_filter p [] = Inr []"
| "array_filter p (x # xs) =
     (case p x of
        Inl e \<Rightarrow> Inl e
      | Inr b \<Rightarrow>
          (case array_filter p xs of
             Inl e \<Rightarrow> Inl e
           | Inr ys \<Rightarrow> Inr (if b then x # ys else ys)))"

text \<open>
  The callbacks of \<open>checkDuplicate\<close>. \<open>job.jobUrl?.toLowerCase().trim()\<close> is \<open>undefined\<close> for
  a record without \<open>jobUrl\<close>, which is not \<open>===\<close> to any string, and the callback never
  throws. \<open>job.company.toLowerCase()\<close> throws when the record has no \<open>company\<close>; the title is
  compared only when the companies are equal (\<open>&&\<close>).
\<close>

definition url_matches :: "string \<Rightarrow> 'i job \<Rightarrow> error + bool" where
  "url_matches jobUrl' job =
     Inr (map_option (\<lambda>v. trim (toLowerCase v)) (jobUrl job) = Some (trim (toLowerCase jobUrl')))"

definition title_matches :: "string \<Rightarrow> string \<Rightarrow> 'i job \<Rightarrow> error + bool" where
  "title_matches company' jobTitle' job =
     (case company job of
        None \<Rightarrow> Inl TypeError
      | Some c \<Rightarrow>
          if toLowerCase c = toLowerCase company'
          then (case jobTitle job of
                  None \<Rightarrow> Inl TypeError
                | Some t \<Rightarrow> Inr (toLowerCase t = toLowerCase jobTitle'))
          else Inr False)"

text \<open>\<open>checkDuplicate\<close> returns \<open>number | null\<close>, or throws what a callback throws.\<close>

definition checkDuplicate ::
  "'i JobTracker \<Rightarrow> string \<Rightarrow> string \<Rightarrow> string option \<Rightarrow> error + int option" where
  "checkDuplicate s company' jobTitle' jobUrl' =
     (case (case jobUrl' of
              None \<Rightarrow> Inr (- 1)
            | Some u \<Rightarrow> if truthy jobUrl' then findIndex (url_matches u) (jobs s) else Inr (- 1)) of
        Inl e \<Rightarrow> Inl e
      | Inr urlIndex \<Rightarrow>
          if urlIndex \<noteq> - 1 then Inr (Some urlIndex)
          else
            (case findIndex (title_matches company' jobTitle') (jobs s) of
               Inl e \<Rightarrow> Inl e
             | Inr titleIndex \<Rightarrow> Inr (if titleIndex \<noteq> - 1 then Some titleIndex else None)))"

text \<open>
  \<open>addJob\<close>; \<open>now\<close> is the value of \<open>new Date().toISOString()\<close> at the call. \<open>newJob\<close> is the
  object \<open>{...jobData, status: JobStatus.FOUND, lastUpdated: now}\<close>: every field of the
  argument, and the two assigned ones.
\<close>

definition newJob :: "'i candidate \<Rightarrow> string \<Rightarrow> 'i job" where
  "newJob jobData now =
     \<lparr>company = Some (company jobData), jobTitle = Some (jobTitle jobData),
      location = location jobData, jobUrl = jobUrl jobData,
      salaryRange = salaryRange jobData, jobBoard = jobBoard jobData,
      additionalInfo = additionalInfo jobData, job_notes = job_notes jobData,
      status = FOUND, lastUpdated = now\<rparr>"

definition addJob :: "'i JobTracker \<Rightarrow> 'i candidate \<Rightarrow> string \<Rightarrow> ('i, int) async" where
  "addJob s jobData now =
     (case initialize s of
        (Inl e, s1) \<Rightarrow> (Inl e, s1)
      | (Inr u, s1) \<Rightarrow>
          (case checkDuplicate s1 (company jobData) (jobTitle jobData) (jobUrl jobData) of
             Inl e \<Rightarrow> (Inl e, s1)
           | Inr (Some duplicateIdx) \<Rightarrow>
               (Inr duplicateIdx,
                log (JobExists duplicateIdx (jobTitle jobData) (company jobData)) s1)
           | Inr None \<Rightarrow>
               (let s2 = s1\<lparr>jobs := jobs s1 @ [newJob jobData now]\<rparr>
                in case saveData s2 of
                     (Inl e, s3) \<Rightarrow> (Inl e, s3)
                   | (Inr v, s3) \<Rightarrow>
                       (Inr (int (length (jobs s3)) - 1),
                        log (JobAdded (int (length (jobs s3)) - 1))
                          (log (JobFound (jobTitle jobData) (company jobData)) s3)))))"

text \<open>
  \<open>updateJobStatus\<close> and \<open>addNote\<close> take the index as a \<open>number\<close>. When both comparisons
  of the guard are false, \<open>this.jobs[jobIndex]\<close> is read; it is \<open>undefined\<close> unless the index
  is an integer, and reading \<open>.status\<close> or \<open>.notes\<close> of \<open>undefined\<close> throws a \<open>TypeError\<close>,
  before anything is assigned. \<open>status\<close> and \<open>lastUpdated\<close> are assigned in place. \<open>note'\<close> is
  the optional note, which is logged when it is truthy.
\<close>

definition updateJobStatus ::
  "'i JobTracker \<Rightarrow> number \<Rightarrow> JobStatus \<Rightarrow> string option \<Rightarrow> string \<Rightarrow> ('i, bool) async" where
  "updateJobStatus s jobIndex status' note' now =
     (case initialize s of
        (Inl e, s1) \<Rightarrow> (Inl e, s1)
      | (Inr u, s1) \<Rightarrow>
          if number_less jobIndex (Number 0)
             \<or> number_greater_eq jobIndex (Number (real (length (jobs s1))))
          then (Inr False, log (IndexOutOfRange jobIndex) s1)
          else
            (case array_get (jobs s1) jobIndex of
               None \<Rightarrow> (Inl TypeError, s1)
             | Some (i, job) \<Rightarrow>
                 (let oldStatus = status job;
                      s2 = s1\<lparr>jobs := (jobs s1)[i := job\<lparr>status := status', lastUpdated := now\<rparr>]\<rparr>;
                      s3 = (if status' = APPLIED
                            then log (JobApplied (jobTitle (jobs s2 ! i)) (company (jobs s2 ! i))) s2
                            else s2)
                  in case saveData s3 of
                       (Inl e, s4) \<Rightarrow> (Inl e, s4)
                     | (Inr v, s4) \<Rightarrow>
                         (let s5 = log (Updated jobIndex oldStatus status') s4
                          in (Inr True,
                              case note' of
                                None \<Rightarrow> s5
                              | Some n \<Rightarrow>
                                  if truthy note' then log (NoteFor jobIndex n) s5 else s5)))))"

text \<open>
  \<open>addNote\<close> reads the clock twice: \<open>now1\<close> for the note's timestamp, \<open>now2\<close> for
  \<open>lastUpdated\<close>.
\<close>

definition addNote ::
  "'i JobTracker \<Rightarrow> number \<Rightarrow> string \<Rightarrow> string \<Rightarrow> string \<Rightarrow> ('i, bool) async" where
  "addNote s jobIndex note' now1 now2 =
     (case initialize s of
        (Inl e, s1) \<Rightarrow> (Inl e, s1)
      | (Inr u, s1) \<Rightarrow>
          if number_less jobIndex (Number 0)
             \<or> number_greater_eq jobIndex (Number (real (length (jobs s1))))
          then (Inr False, log (IndexOutOfRange jobIndex) s1)
          else
            (let noteEntry = \<lparr>timestamp = now1, note_text = note'\<rparr>
             in case array_get (jobs s1) jobIndex of
                  None \<Rightarrow> (Inl TypeError, s1)
                | Some (i, job) \<Rightarrow>
                    (let job1 = (case job_notes job of
                                   None \<Rightarrow> job\<lparr>job_notes := Some []\<rparr>
                                 | Some ns \<Rightarrow> job);
                         job2 = job1\<lparr>job_notes :=
                                        map_option (\<lambda>ns. ns @ [noteEntry]) (job_notes job1)\<rparr>;
                         job3 = job2\<lparr>lastUpdated := now2\<rparr>;
                         s2 = s1\<lparr>jobs := (jobs s1)[i := job3]\<rparr>
                     in case saveData s2 of
                          (Inl e, s3) \<Rightarrow> (Inl e, s3)
                        | (Inr v, s3) \<Rightarrow> (Inr True, log (AddedNote jobIndex) s3))))"

text \<open>
  The synchronous queries; none of them calls \<open>initialize\<close>. \<open>getJob\<close> gives \<open>null\<close> for
  every index that names no element. The callbacks of \<open>getJobsByCompany\<close> and \<open>searchJobs\<close>
  throw when \<open>toLowerCase\<close> is called on an absent \<open>company\<close> or \<open>jobTitle\<close>; \<open>||\<close> evaluates
  its right operand only when the left one is false, and \<open>location\<close> is read through \<open>?.\<close>.
\<close>

definition getJob :: "'i JobTracker \<Rightarrow> number \<Rightarrow> 'i job option" where
  "getJob s index = map_option snd (array_get (jobs s) index)"

definition getJobsByStatus :: "'i JobTracker \<Rightarrow> JobStatus \<Rightarrow> 'i job list" where
  "getJobsByStatus s status' = filter (\<lambda>job. status job = status') (jobs s)"

definition company_includes :: "string \<Rightarrow> 'i job \<Rightarrow> error + bool" where
  "company_includes company' job =
     (case company job of
        None \<Rightarrow> Inl TypeError
      | Some c \<Rightarrow> Inr (str_includes (toLowerCase c) (toLowerCase company')))"

definition getJobsByCompany :: "'i JobTracker \<Rightarrow> string \<Rightarrow> error + 'i job list" where
  "getJobsByCompany s company' = array_filter (company_includes company') (jobs s)"

definition search_matches :: "string \<Rightarrow> 'i job \<Rightarrow> error + bool" where
  "search_matches queryLower job =
     (case jobTitle job of
        None \<Rightarrow> Inl TypeError
      | Some t \<Rightarrow>
          if str_includes (toLowerCase t) queryLower then Inr True
          else
            (case company job of
               None \<Rightarrow> Inl TypeError
             | Some c \<Rightarrow>
                 if str_includes (toLowerCase c) queryLower then Inr True
                 else Inr (case location job of
                             None \<Rightarrow> False
                           | Some l \<Rightarrow> str_includes (toLowerCase l) queryLower)))"

definition searchJobs :: "'i JobTracker \<Rightarrow> string \<Rightarrow> error + 'i job list" where
  "searchJobs s query =
     (let queryLower = toLowerCase query
      in array_filter (search_matches queryLower) (jobs s))"

definition getAllJobs :: "'i JobTracker \<Rightarrow> 'i job list" where
  "getAllJobs s = jobs s"

text \<open>
  \<open>getStatistics\<close>. A \<open>Record<string, number>\<close> is the list of its entries in the order
  the keys were first assigned; \<open>increment\<close> is \<open>r[key] = (r[key] || 0) + 1\<close>. An absent
  \<open>company\<close> counts under the key \<open>undefined\<close>, a falsy \<open>jobBoard\<close> under \<open>unknown\<close>; \<open>status\<close> is
  present in every record of the model, so that nothing counts under the status \<open>unknown\<close>.
\<close>

record JobStatistics =
  totalJobs :: nat
  byStatus :: "(string \<times> nat) list"
  byCompany :: "(string \<times> nat) list"
  byJobBoard :: "(string \<times> nat) list"
  appliedCount :: nat

fun increment :: "string \<Rightarrow> (string \<times> nat) list \<Rightarrow> (string \<times> nat) list" where
  "increment key [] = [(key, 1)]"
| "increment key ((k, n) # r) = (if k = key then (k, n + 1) # r else (k, n) # increment key r)"

definition count_job :: "JobStatistics \<Rightarrow> 'i job \<Rightarrow> JobStatistics" where
  "count_job stats job =
     stats\<lparr>byStatus := increment (status_value (status job)) (byStatus stats),
           byCompany := increment (case company job of None \<Rightarrow> ''undefined'' | Some c \<Rightarrow> c)
                          (byCompany stats),
           byJobBoard := increment (case jobBoard job of
                                      None \<Rightarrow> ''unknown''
                                    | Some b \<Rightarrow> if truthy (jobBoard job) then b else ''unknown'')
                           (byJobBoard stats),
           appliedCount := (if status job = APPLIED then appliedCount stats + 1
                            else appliedCount stats)\<rparr>"

definition getStatistics :: "'i JobTracker \<Rightarrow> JobStatistics" where
  "getStatistics s =
     foldl count_job
       \<lparr>totalJobs = length (jobs s), byStatus = [], byCompany = [], byJobBoard = [],
        appliedCount = 0\<rparr>
       (jobs s)"

text \<open>
  \<open>printSummary\<close> logs the summary. \<open>Object.entries(stats.byStatus).sort()\<close> sorts the
  entries by the strings \<open>status,count\<close> they convert to, compared code unit by code unit.
\<close>

definition sorted_entries :: "(string \<times> nat) list \<Rightarrow> (string \<times> nat) list" where
  "sorted_entries r = sort_key (\<lambda>(k, n). k @ '','' @ decimal n) r"

definition printSummary :: "'i JobTracker \<Rightarrow> 'i JobTracker" where
  "printSummary s =
     (let stats = getStatistics s;
          s1 = log (TotalJobsTracked (totalJobs stats))
                 (log Separator (log SummaryTitle (log Separator s)));
          s2 = (if length (byStatus stats) > 0
                then foldl (\<lambda>t (status', count). log (StatusCount (capitalize status') count) t)
                       (log JobsByStatusTitle s1) (sorted_entries (byStatus stats))
                else s1);
          s3 = (if appliedCount stats > 0
                then log (ApplicationsSubmitted (appliedCount stats)) s2
                else s2)
      in log Separator s3)"

text \<open>
  The module variable \<open>jobTrackerInstance\<close> is \<open>null\<close>, and only the environment exists, or
  it holds the one tracker. \<open>getJobTracker\<close> creates the tracker when the variable is
  \<open>null\<close> and returns the tracker the variable holds; \<open>call\<close> is a call
  \<open>getJobTracker().method(...)\<close>, which leaves the variable holding the tracker as the method
  left it.
\<close>

datatype 'i jobTrackerInstance =
    Null "'i data_file" "string option" "log_entry list"
  | Instance "'i JobTracker"

fun getJobTracker :: "'i jobTrackerInstance \<Rightarrow> 'i JobTracker" where
  "getJobTracker (Null f w l) = (new_JobTracker f w)\<lparr>logged := l\<rparr>"
| "getJobTracker (Instance t) = t"

definition call ::
  "('i JobTracker \<Rightarrow> 'a \<times> 'i JobTracker) \<Rightarrow> 'i jobTrackerInstance \<Rightarrow> 'a \<times> 'i jobTrackerInstance" where
  "call operation m = (case operation (getJobTracker m) of (r, t) \<Rightarrow> (r, Instance t))"

section \<open>Notions used to state the properties\<close>

text \<open>
  The state in which the body of an \<open>async\<close> method runs, after its
  \<open>await this.initialize()\<close>.
\<close>

definition after_initialize :: "'i JobTracker \<Rightarrow> 'i JobTracker" where
  "after_initialize s = snd (initialize s)"

text \<open>
  The duplicate rule in the words of the specification, to compare \<open>checkDuplicate\<close> with:
  (a) both records have a non-empty \<open>jobUrl\<close> and the URLs are equal after lower-casing and
  trimming; (b) \<open>company\<close> and \<open>jobTitle\<close> are both equal after lower-casing. The URL
  rule is tried first, on the whole collection; each rule gives the first index it holds at.
\<close>

definition url_duplicate :: "string option \<Rightarrow> 'i job \<Rightarrow> bool" where
  "url_duplicate jobUrl' job =
     (truthy jobUrl' \<and> truthy (jobUrl job)
      \<and> map_option (\<lambda>v. trim (toLowerCase v)) (jobUrl job)
          = map_option (\<lambda>v. trim (toLowerCase v)) jobUrl')"

definition title_duplicate :: "string \<Rightarrow> string \<Rightarrow> 'i job \<Rightarrow> bool" where
  "title_duplicate company' jobTitle' job =
     (map_option toLowerCase (company job) = Some (toLowerCase company')
      \<and> map_option toLowerCase (jobTitle job) = Some (toLowerCase jobTitle'))"

definition first_index :: "('a \<Rightarrow> bool) \<Rightarrow> 'a list \<Rightarrow> int option" where
  "first_index p xs =
     (if list_ex p xs then Some (int (length (takeWhile (\<lambda>x. \<not> p x) xs))) else None)"

definition checkDuplicate_spec ::
  "'i job list \<Rightarrow> string \<Rightarrow> string \<Rightarrow> string option \<Rightarrow> int option" where
  "checkDuplicate_spec js company' jobTitle' jobUrl' =
     (case first_index (url_duplicate jobUrl') js of
        Some i \<Rightarrow> Some i
      | None \<Rightarrow> first_index (title_duplicate company' jobTitle') js)"

text \<open>The number of records with a given company and title, compared as the rule does.\<close>

definition count_title :: "string \<Rightarrow> string \<Rightarrow> 'i job list \<Rightarrow> nat" where
  "count_title company' jobTitle' js = length (filter (title_duplicate company' jobTitle') js)"

text \<open>
  A record keeps its identity when nothing but the fields the tracker assigns in place
  (\<open>status\<close>, \<open>lastUpdated\<close>, \<open>notes\<close>) differs; a collection keeps its records when every
  index it had still holds the same record, and it has grown by one record at most.
\<close>

definition same_record :: "'i job \<Rightarrow> 'i job \<Rightarrow> bool" where
  "same_record a b =
     (b\<lparr>status := status a, lastUpdated := lastUpdated a, job_notes := job_notes a\<rparr> = a)"

definition keeps_records :: "'i job list \<Rightarrow> 'i job list \<Rightarrow> bool" where
  "keeps_records before after =
     (length before \<le> length after \<and> length after \<le> Suc (length before)
      \<and> list_all2 same_record before (take (length before) after))"


definition no_statistics :: JobStatistics where
  "no_statistics =
     \<lparr>totalJobs = 0, byStatus = [], byCompany = [], byJobBoard = [], appliedCount = 0\<rparr>"

section \<open>Example data\<close>

definition ex_job :: "string \<Rightarrow> string \<Rightarrow> string option \<Rightarrow> unit job" where
  "ex_job c t u =
     \<lparr>company = Some c, jobTitle = Some t, location = None, jobUrl = u, salaryRange = [],
      jobBoard = None, additionalInfo = None, job_notes = None,
      status = FOUND, lastUpdated = ''2024-01-01T00:00:00.000Z''\<rparr>"

definition ex_candidate :: "string \<Rightarrow> string \<Rightarrow> string option \<Rightarrow> unit candidate" where
  "ex_candidate c t u =
     \<lparr>company = c, jobTitle = t, location = None, jobUrl = u, salaryRange = [],
      jobBoard = None, additionalInfo = None, job_notes = None\<rparr>"

text \<open>An initialized tracker holding the given records, with the file in step.\<close>

definition ex_tracker :: "unit job list \<Rightarrow> string option \<Rightarrow> unit JobTracker" where
  "ex_tracker js w =
     \<lparr>jobs = js, initialized = True, DATA_FILE = Text (JSON_stringify js),
      write_error = w, logged = []\<rparr>"

text \<open>
  A fresh tracker whose data file does not exist, a candidate without a URL, one with the
  same company and title whose URL is the empty string, and the tracker after the first
  has been added.
\<close>

definition ex_fresh :: "unit JobTracker" where
  "ex_fresh = new_JobTracker Missing None"

definition ex_acme :: "unit candidate" where
  "ex_acme = ex_candidate ''Acme'' ''Engineer'' None"

definition ex_acme_blank :: "unit candidate" where
  "ex_acme_blank = ex_candidate ''Acme'' ''Engineer'' (Some [])"

definition ex_after_first :: "unit JobTracker" where
  "ex_after_first = snd (addJob ex_fresh ex_acme ''2024-02-02T00:00:00.000Z'')"

text \<open>A fresh tracker without a data file, in a directory that cannot be written.\<close>

definition ex_readonly :: "unit JobTracker" where
  "ex_readonly = new_JobTracker Missing (Some ''EACCES'')"

text \<open>
  A fresh tracker whose data file is in the legacy format, an object with the keys
  \<open>"0"\<close> and \<open>"1"\<close>; \<open>w\<close> says whether the file can be written.
\<close>

definition ex_legacy :: "string option \<Rightarrow> unit JobTracker" where
  "ex_legacy w =
     new_JobTracker
       (Text (Json (JObject [(''0'', ex_job ''Acme'' ''Engineer'' None),
                             (''1'', ex_job ''Globex'' ''Analyst'' None)]))) w"

text \<open>A fresh tracker whose data file holds an array of one record.\<close>

definition ex_stored :: "unit JobTracker" where
  "ex_stored = new_JobTracker (Text (Json (JArray [ex_job ''Acme'' ''Engineer'' None]))) None"

text \<open>An initialized tracker holding two records.\<close>

definition ex_two :: "unit JobTracker" where
  "ex_two = ex_tracker [ex_job ''Acme'' ''Engineer'' None, ex_job ''Globex'' ''Analyst'' None] None"


section \<open>Facts about the string methods, \<open>findIndex\<close> and \<open>filter\<close>\<close>

lemma toLowerCase_Nil: "toLowerCase [] = []"
  by (simp add: toLowerCase_def)

lemma trim_Nil: "trim [] = []"
  by (simp add: trim_def)


lemma first_index_None: "first_index p xs = None \<longleftrightarrow> (\<forall>x \<in> set xs. \<not> p x)"
  by (simp add: first_index_def list_ex_iff)

lemma first_index_snoc_new:
  "first_index p xs = None \<Longrightarrow> p y \<Longrightarrow> first_index p (xs @ [y]) = Some (int (length xs))"
  by (simp add: first_index_def list_ex_iff takeWhile_append2 split: if_splits)

lemma first_index_Some_filter: "first_index p xs = Some i \<Longrightarrow> 1 \<le> length (filter p xs)"
  by (auto simp add: first_index_def list_ex_iff filter_empty_conv Suc_le_eq split: if_splits)

lemma first_index_None_filter: "first_index p xs = None \<Longrightarrow> filter p xs = []"
  by (simp add: first_index_None filter_empty_conv)

lemma first_index_cong:
  assumes "\<And>x. x \<in> set xs \<Longrightarrow> p x = q x"
  shows "first_index p xs = first_index q xs"
proof -
  have "takeWhile (\<lambda>x. \<not> p x) xs = takeWhile (\<lambda>x. \<not> q x) xs"
    using assms by (intro takeWhile_cong) simp_all
  moreover have "list_ex p xs = list_ex q xs"
    using assms by (simp add: list_ex_iff)
  ultimately show ?thesis by (simp add: first_index_def)
qed

lemma first_index_nonneg: "first_index p xs = Some i \<Longrightarrow> 0 \<le> i"
  by (auto simp add: first_index_def split: if_splits)

text \<open>
  When \<open>findIndex\<close> returns, it returns the first index at which the callback gave \<open>true\<close>:
  the callback gave \<open>false\<close>, and did not throw, on the elements before.
\<close>

lemma findIndex_from_returns:
  "findIndex_from i p xs = Inr r \<Longrightarrow>
   r = (case first_index (\<lambda>x. p x = Inr True) xs of Some k \<Rightarrow> i + k | None \<Rightarrow> - 1)"
proof (induction xs arbitrary: i)
  case Nil
  then show ?case by (simp add: first_index_def)
next
  case (Cons x xs)
  show ?case
  proof (cases "p x")
    case (Inl e)
    with Cons.prems show ?thesis by simp
  next
    case (Inr b)
    show ?thesis
    proof (cases b)
      case True
      with Inr Cons.prems show ?thesis by (simp add: first_index_def)
    next
      case False
      with Inr Cons.prems have "findIndex_from (i + 1) p xs = Inr r" by simp
      from Cons.IH [OF this] Inr False show ?thesis
        by (simp add: first_index_def list_ex_iff)
    qed
  qed
qed

lemma findIndex_returns:
  "findIndex p xs = Inr r \<Longrightarrow>
   r = (case first_index (\<lambda>x. p x = Inr True) xs of Some k \<Rightarrow> k | None \<Rightarrow> - 1)"
  using findIndex_from_returns [of 0 p xs r] by (simp add: findIndex_def split: option.splits)

lemma findIndex_from_pure:
  "\<forall>x \<in> set xs. p x = Inr (q x) \<Longrightarrow>
   findIndex_from i p xs = Inr (case first_index q xs of Some k \<Rightarrow> i + k | None \<Rightarrow> - 1)"
proof (induction xs arbitrary: i)
  case Nil
  then show ?case by (simp add: first_index_def)
next
  case (Cons x xs)
  then have "findIndex_from (i + 1) p xs
               = Inr (case first_index q xs of Some k \<Rightarrow> (i + 1) + k | None \<Rightarrow> - 1)"
    by simp
  with Cons.prems show ?case
    by (simp add: first_index_def list_ex_iff)
qed

lemma findIndex_pure:
  "\<forall>x \<in> set xs. p x = Inr (q x) \<Longrightarrow>
   findIndex p xs = Inr (case first_index q xs of Some k \<Rightarrow> k | None \<Rightarrow> - 1)"
  using findIndex_from_pure [of xs p q 0] by (simp add: findIndex_def split: option.splits)

lemma findIndex_from_snoc:
  "findIndex_from i p xs = Inr (- 1) \<Longrightarrow> 0 \<le> i \<Longrightarrow> p y = Inr True \<Longrightarrow>
   findIndex_from i p (xs @ [y]) = Inr (i + int (length xs))"
proof (induction xs arbitrary: i)
  case Nil
  then show ?case by simp
next
  case (Cons x xs)
  show ?case
  proof (cases "p x")
    case (Inl e)
    with Cons.prems show ?thesis by simp
  next
    case (Inr b)
    with Cons.prems have nb: "\<not> b" by (cases b) auto
    with Inr Cons.prems have "findIndex_from (i + 1) p xs = Inr (- 1)" by simp
    from Cons.IH [OF this] Cons.prems Inr nb show ?thesis by simp
  qed
qed

lemma findIndex_snoc:
  "findIndex p xs = Inr (- 1) \<Longrightarrow> p y = Inr True \<Longrightarrow>
   findIndex p (xs @ [y]) = Inr (int (length xs))"
  using findIndex_from_snoc [of 0 p xs y] by (simp add: findIndex_def)



section \<open>Facts about logging, loading and initialization\<close>

lemma write_error_log [simp]: "write_error (log e s) = write_error s"
  by (simp add: log_def)

lemma jobs_log [simp]: "jobs (log e s) = jobs s"
  by (simp add: log_def)

lemma DATA_FILE_log [simp]: "DATA_FILE (log e s) = DATA_FILE s"
  by (simp add: log_def)

lemma initialized_log [simp]: "initialized (log e s) = initialized s"
  by (simp add: log_def)

lemma loadData_never_raises: "\<exists>js. fst (loadData s) = Inr js"
  by (simp add: loadData_def split: prod.splits sum.splits)

lemma initialize_never_raises: "fst (initialize s) = Inr ()"
  using loadData_never_raises [of s]
  by (auto simp add: initialize_def split: prod.splits sum.splits)

lemma initialize_eq: "initialize s = (Inr (), snd (initialize s))"
  using initialize_never_raises [of s] by (cases "initialize s") simp

lemma initialize_initialized: "initialized s \<Longrightarrow> initialize s = (Inr (), s)"
  by (simp add: initialize_def)

lemma initialized_after: "initialized (snd (initialize s))"
  using loadData_never_raises [of s]
  by (auto simp add: initialize_def log_def split: prod.splits sum.splits)

lemma write_error_loadData: "write_error (snd (loadData s)) = write_error s"
  by (simp add: loadData_def loadData_try_def saveDataInternal_def Let_def
      split: prod.splits sum.splits parsed.splits option.splits)

lemma write_error_after_initialize: "write_error (after_initialize s) = write_error s"
  using write_error_loadData [of s]
  by (auto simp add: after_initialize_def initialize_def split: prod.splits sum.splits)

lemma after_initialize_initialized: "initialized s \<Longrightarrow> after_initialize s = s"
  by (simp add: after_initialize_def initialize_def)

lemma initialized_after_initialize: "initialized (after_initialize s)"
  by (simp add: after_initialize_def initialized_after)

lemma initialize_after: "initialize s = (Inr (), after_initialize s)"
  using initialize_eq [of s] by (simp add: after_initialize_def)

lemma loadData_Missing:
  "DATA_FILE s = Missing \<Longrightarrow> loadData s = (Inr [], s)"
  by (simp add: loadData_def loadData_try_def)

lemma loadData_Invalid:
  "DATA_FILE s = Text Invalid \<Longrightarrow> loadData s = (Inr [], log (ErrorLoading SyntaxError) s)"
  by (simp add: loadData_def loadData_try_def)

lemma loadData_Unreadable:
  "DATA_FILE s = Unreadable c \<Longrightarrow> c \<noteq> ''ENOENT'' \<Longrightarrow>
   loadData s = (Inr [], log (ErrorLoading (ErrnoException c)) s)"
  by (simp add: loadData_def loadData_try_def)

lemma loadData_JObject:
  "DATA_FILE s = Text (Json (JObject obj)) \<Longrightarrow> write_error s = None \<Longrightarrow>
   loadData s =
     (Inr (Object_values obj),
      log (Saved (length obj))
        (log Migrating s\<lparr>DATA_FILE := Text (JSON_stringify (Object_values obj))\<rparr>))"
  by (simp add: loadData_def loadData_try_def saveDataInternal_def Let_def Object_values_def)

section \<open>Facts about duplicate detection and \<open>addJob\<close>\<close>

lemma title_matches_True: "title_matches c t job = Inr True \<longleftrightarrow> title_duplicate c t job"
  by (auto simp add: title_matches_def title_duplicate_def split: option.splits)

lemma title_matches_newJob: "title_matches (company jd) (jobTitle jd) (newJob jd now) = Inr True"
  by (simp add: title_matches_def newJob_def)

lemma title_duplicate_newJob: "title_duplicate (company jd) (jobTitle jd) (newJob jd now)"
  by (simp add: title_duplicate_def newJob_def)

lemma checkDuplicate_jobs: "jobs s = jobs s' \<Longrightarrow> checkDuplicate s c t u = checkDuplicate s' c t u"
  unfolding checkDuplicate_def by (erule subst) (rule refl)

lemma checkDuplicate_no_url:
  "\<not> truthy u \<Longrightarrow>
   checkDuplicate s c t u =
     (case findIndex (title_matches c t) (jobs s) of
        Inl e \<Rightarrow> Inl e
      | Inr titleIndex \<Rightarrow> Inr (if titleIndex \<noteq> - 1 then Some titleIndex else None))"
  by (cases u) (simp_all add: checkDuplicate_def)

lemma first_index_title:
  "first_index (\<lambda>job. title_matches c t job = Inr True) js = first_index (title_duplicate c t) js"
  by (rule first_index_cong) (simp add: title_matches_True)

lemma checkDuplicate_no_url_returns:
  assumes "\<not> truthy u" and "checkDuplicate s c t u = Inr r"
  shows "r = first_index (title_duplicate c t) (jobs s)"
proof (cases "findIndex (title_matches c t) (jobs s)")
  case (Inl e)
  with assms show ?thesis by (simp add: checkDuplicate_no_url)
next
  case (Inr titleIndex)
  from findIndex_returns [OF Inr]
  have "titleIndex = (case first_index (title_duplicate c t) (jobs s) of
                        Some k \<Rightarrow> k | None \<Rightarrow> - 1)"
    by (simp add: first_index_title)
  with assms Inr show ?thesis
    by (auto simp add: checkDuplicate_no_url split: option.splits dest: first_index_nonneg)
qed

lemma checkDuplicate_no_url_None:
  assumes "\<not> truthy u" and "checkDuplicate s c t u = Inr None"
  shows "findIndex (title_matches c t) (jobs s) = Inr (- 1)"
  using assms by (auto simp add: checkDuplicate_no_url split: sum.splits if_splits)

lemma addJob_duplicate:
  assumes "checkDuplicate (after_initialize s) (company jd) (jobTitle jd) (jobUrl jd) = Inr (Some i)"
  shows "addJob s jd now = (Inr i, log (JobExists i (jobTitle jd) (company jd)) (after_initialize s))"
  using assms by (simp add: addJob_def initialize_after)

lemma addJob_throws:
  assumes "checkDuplicate (after_initialize s) (company jd) (jobTitle jd) (jobUrl jd) = Inl e"
  shows "addJob s jd now = (Inl e, after_initialize s)"
  using assms by (simp add: addJob_def initialize_after)

lemma addJob_new:
  assumes "checkDuplicate (after_initialize s) (company jd) (jobTitle jd) (jobUrl jd) = Inr None"
    and "write_error s = None"
  shows "\<exists>s'. addJob s jd now = (Inr (int (length (jobs (after_initialize s)))), s')
           \<and> jobs s' = jobs (after_initialize s) @ [newJob jd now]
           \<and> DATA_FILE s' = Text (JSON_stringify (jobs s'))
           \<and> initialized s' \<and> write_error s' = None"
  using assms write_error_after_initialize [of s] initialized_after_initialize [of s]
  by (simp add: addJob_def initialize_after saveData_def saveDataInternal_def Let_def)

lemma addJob_new_fails:
  assumes "checkDuplicate (after_initialize s) (company jd) (jobTitle jd) (jobUrl jd) = Inr None"
    and "write_error s = Some c"
  shows "\<exists>s'. addJob s jd now = (Inl (ErrnoException c), s')
           \<and> jobs s' = jobs (after_initialize s) @ [newJob jd now]
           \<and> DATA_FILE s' = DATA_FILE (after_initialize s)"
  using assms write_error_after_initialize [of s]
  by (simp add: addJob_def initialize_after saveData_def saveDataInternal_def Let_def)

lemma addJob_jobs:
  "jobs (snd (addJob s jd now))
     = (case checkDuplicate (after_initialize s) (company jd) (jobTitle jd) (jobUrl jd) of
          Inr None \<Rightarrow> jobs (after_initialize s) @ [newJob jd now]
        | _ \<Rightarrow> jobs (after_initialize s))"
  by (simp add: addJob_def initialize_after saveData_def saveDataInternal_def Let_def
      split: option.splits sum.splits)

section \<open>Facts about \<open>updateJobStatus\<close> and \<open>addNote\<close>\<close>

text \<open>An index that names an element passes the guard.\<close>

lemma array_get_in_range:
  assumes "array_get xs n = Some (i, x)"
  shows "\<not> number_less n (Number 0) \<and> \<not> number_greater_eq n (Number (real (length xs)))
         \<and> array_index n = Some i \<and> i < length xs \<and> x = xs ! i"
proof (cases n)
  case (Number r)
  with assms have int: "0 \<le> r" "r = of_int \<lfloor>r\<rfloor>" and i: "i = nat \<lfloor>r\<rfloor>" "i < length xs" "x = xs ! i"
    by (auto simp add: array_get_def split: if_splits)
  from int i have "r < real (length xs)"
    by (metis floor_less_iff nat_less_iff of_int_0_le_iff of_int_of_nat_eq of_nat_less_iff
        zless_nat_conj zero_le_floor)
  with Number int i show ?thesis by simp
qed (use assms in \<open>simp_all add: array_get_def\<close>)

lemma updateJobStatus_out_of_range:
  assumes "number_less jobIndex (Number 0)
           \<or> number_greater_eq jobIndex (Number (real (length (jobs (after_initialize s)))))"
  shows "updateJobStatus s jobIndex st n now
           = (Inr False, log (IndexOutOfRange jobIndex) (after_initialize s))"
  using assms by (auto simp add: updateJobStatus_def initialize_after)

lemma addNote_out_of_range:
  assumes "number_less jobIndex (Number 0)
           \<or> number_greater_eq jobIndex (Number (real (length (jobs (after_initialize s)))))"
  shows "addNote s jobIndex n now1 now2
           = (Inr False, log (IndexOutOfRange jobIndex) (after_initialize s))"
  using assms by (auto simp add: addNote_def initialize_after)

text \<open>An index that passes the guard and names no element makes both methods throw.\<close>

lemma updateJobStatus_undefined:
  assumes "\<not> number_less jobIndex (Number 0)"
    and "\<not> number_greater_eq jobIndex (Number (real (length (jobs (after_initialize s)))))"
    and "array_get (jobs (after_initialize s)) jobIndex = None"
  shows "updateJobStatus s jobIndex st n now = (Inl TypeError, after_initialize s)"
  using assms by (simp add: updateJobStatus_def initialize_after)

lemma addNote_undefined:
  assumes "\<not> number_less jobIndex (Number 0)"
    and "\<not> number_greater_eq jobIndex (Number (real (length (jobs (after_initialize s)))))"
    and "array_get (jobs (after_initialize s)) jobIndex = None"
  shows "addNote s jobIndex n now1 now2 = (Inl TypeError, after_initialize s)"
  using assms by (simp add: addNote_def initialize_after)

lemma jobs_saveData [simp]: "jobs (snd (saveData s)) = jobs s"
  by (simp add: saveData_def saveDataInternal_def split: option.splits)

lemma updateJobStatus_in_range_jobs:
  assumes "array_get (jobs (after_initialize s)) jobIndex = Some (i, job)"
  shows "jobs (snd (updateJobStatus s jobIndex st n now))
           = (jobs (after_initialize s))
               [i := (jobs (after_initialize s) ! i)\<lparr>status := st, lastUpdated := now\<rparr>]"
  using assms array_get_in_range [OF assms]
  by (simp add: updateJobStatus_def initialize_after saveData_def saveDataInternal_def Let_def
      split: option.splits)

lemma addNote_in_range_jobs:
  assumes "array_get (jobs (after_initialize s)) jobIndex = Some (i, job)"
  shows "jobs (snd (addNote s jobIndex n now1 now2))
           = (jobs (after_initialize s))
               [i := (jobs (after_initialize s) ! i)
                  \<lparr>job_notes :=
                     Some ((case job_notes (jobs (after_initialize s) ! i) of
                              None \<Rightarrow> [] | Some ns \<Rightarrow> ns)
                           @ [\<lparr>timestamp = now1, note_text = n\<rparr>]),
                   lastUpdated := now2\<rparr>]"
  using assms array_get_in_range [OF assms]
  by (simp add: addNote_def initialize_after saveData_def saveDataInternal_def Let_def
      split: option.splits)

lemma same_record_refl: "same_record a a"
  by (simp add: same_record_def)

lemma same_record_status: "same_record a (a\<lparr>status := st, lastUpdated := now\<rparr>)"
  by (simp add: same_record_def)

lemma same_record_notes: "same_record a (a\<lparr>job_notes := ns, lastUpdated := now\<rparr>)"
  by (simp add: same_record_def)

lemma keeps_records_refl: "keeps_records xs xs"
  by (simp add: keeps_records_def list_all2_conv_all_nth same_record_refl)

lemma keeps_records_snoc: "keeps_records xs (xs @ [x])"
  by (simp add: keeps_records_def list_all2_conv_all_nth same_record_refl)

lemma keeps_records_update:
  assumes "same_record (xs ! i) r"
  shows "keeps_records xs (xs[i := r])"
proof (cases "i < length xs")
  case True
  with assms show ?thesis
    by (simp add: keeps_records_def list_all2_conv_all_nth same_record_refl nth_list_update)
next
  case False
  then show ?thesis by (simp add: keeps_records_refl list_update_beyond)
qed

lemma updateJobStatus_keeps:
  "keeps_records (jobs (after_initialize s)) (jobs (snd (updateJobStatus s jobIndex st n now)))
   \<and> length (jobs (snd (updateJobStatus s jobIndex st n now))) = length (jobs (after_initialize s))"
proof (cases "number_less jobIndex (Number 0)
              \<or> number_greater_eq jobIndex (Number (real (length (jobs (after_initialize s)))))")
  case True
  from updateJobStatus_out_of_range [OF this] show ?thesis
    by (simp add: keeps_records_refl)
next
  case False
  show ?thesis
  proof (cases "array_get (jobs (after_initialize s)) jobIndex")
    case None
    with False updateJobStatus_undefined [of jobIndex s st n now] show ?thesis
      by (simp add: keeps_records_refl)
  next
    case (Some a)
    then obtain i job where "array_get (jobs (after_initialize s)) jobIndex = Some (i, job)"
      by (cases a) simp
    from updateJobStatus_in_range_jobs [OF this] show ?thesis
      by (simp add: keeps_records_update same_record_status)
  qed
qed

lemma addNote_keeps:
  "keeps_records (jobs (after_initialize s)) (jobs (snd (addNote s jobIndex n now1 now2)))
   \<and> length (jobs (snd (addNote s jobIndex n now1 now2))) = length (jobs (after_initialize s))"
proof (cases "number_less jobIndex (Number 0)
              \<or> number_greater_eq jobIndex (Number (real (length (jobs (after_initialize s)))))")
  case True
  from addNote_out_of_range [OF this] show ?thesis
    by (simp add: keeps_records_refl)
next
  case False
  show ?thesis
  proof (cases "array_get (jobs (after_initialize s)) jobIndex")
    case None
    with False addNote_undefined [of jobIndex s n now1 now2] show ?thesis
      by (simp add: keeps_records_refl)
  next
    case (Some a)
    then obtain i job where "array_get (jobs (after_initialize s)) jobIndex = Some (i, job)"
      by (cases a) simp
    from addNote_in_range_jobs [OF this] show ?thesis
      by (simp add: keeps_records_update same_record_notes)
  qed
qed

section \<open>Facts about the queries\<close>





section \<open>Duplicate detection\<close>

text \<open>
  Claim C1: \<open>checkDuplicate\<close> returns the index of an existing record exactly when the
  duplicate rule holds, the URL rule first: the first index whose record has a non-empty
  \<open>jobUrl\<close> equal, after lower-casing and trimming, to the candidate's non-empty \<open>jobUrl\<close>;
  failing that, the first index whose \<open>company\<close> and \<open>jobTitle\<close> equal the candidate's after
  lower-casing; otherwise no match.

  The code does not do this when the candidate's URL is non-empty but consists of white
  space only. The guard \<open>if (jobUrl)\<close> lets such a URL through, it trims to the empty string,
  and a record whose \<open>jobUrl\<close> is the empty string trims to the empty string as well, so the
  URL rule matches a record that has no URL. Below, the collection is the one two calls of
  \<open>addJob\<close> build on a fresh tracker: record 0 is \<open>A\<close>/\<open>X\<close> with \<open>jobUrl = ""\<close>, record 1 is
  \<open>B\<close>/\<open>Y\<close> without a URL. For the candidate \<open>B\<close>/\<open>Y\<close> with URL \<open>"  "\<close> the code answers 0 where
  the rule answers 1, and for the candidate \<open>C\<close>/\<open>Z\<close> with URL \<open>"  "\<close> the code answers 0 where
  the rule finds no match.
\<close>

theorem checkDuplicate_blank_url_matches_empty_url:
  "jobs (snd (addJob (snd (addJob (new_JobTracker Missing None)
                             (ex_candidate ''A'' ''X'' (Some [])) ''2024-01-01T00:00:00.000Z''))
                (ex_candidate ''B'' ''Y'' None) ''2024-01-01T00:00:00.000Z''))
     = [ex_job ''A'' ''X'' (Some []), ex_job ''B'' ''Y'' None]
   \<and> checkDuplicate (ex_tracker [ex_job ''A'' ''X'' (Some []), ex_job ''B'' ''Y'' None] None)
         ''B'' ''Y'' (Some ''  '') = Inr (Some 0)
   \<and> checkDuplicate_spec [ex_job ''A'' ''X'' (Some []), ex_job ''B'' ''Y'' None]
         ''B'' ''Y'' (Some ''  '') = Some 1
   \<and> checkDuplicate (ex_tracker [ex_job ''A'' ''X'' (Some []), ex_job ''B'' ''Y'' None] None)
         ''C'' ''Z'' (Some ''  '') = Inr (Some 0)
   \<and> checkDuplicate_spec [ex_job ''A'' ''X'' (Some []), ex_job ''B'' ''Y'' None]
         ''C'' ''Z'' (Some ''  '') = None"
  by code_simp

text \<open>
  Property X1. Apart from that case the code follows the rule: whenever \<open>checkDuplicate\<close>
  returns, it returns what the rule of the specification gives, provided the candidate has
  no URL, or its URL does not consist of white space only, or no record of the collection
  has the empty string as URL.
\<close>

theorem checkDuplicate_meets_spec:
  assumes "case u of
             None \<Rightarrow> True
           | Some v \<Rightarrow> v = [] \<or> trim (toLowerCase v) \<noteq> []
                        \<or> (\<forall>j \<in> set (jobs s). jobUrl j \<noteq> Some [])"
    and returns: "checkDuplicate s c t u = Inr r"
  shows "r = checkDuplicate_spec (jobs s) c t u"
proof (cases "truthy u")
  case False
  then have "first_index (url_duplicate u) (jobs s) = None"
    by (simp add: first_index_None url_duplicate_def)
  with checkDuplicate_no_url_returns [OF False returns] show ?thesis
    by (simp add: checkDuplicate_spec_def)
next
  case True
  then obtain v where u: "u = Some v" and v: "v \<noteq> []"
    by (cases u) auto
  let ?p = "\<lambda>job. map_option (\<lambda>v. trim (toLowerCase v)) (jobUrl job)
                    = Some (trim (toLowerCase v))"
  have "\<And>j. j \<in> set (jobs s) \<Longrightarrow> ?p j = url_duplicate u j"
  proof -
    fix j assume j: "j \<in> set (jobs s)"
    show "?p j = url_duplicate u j"
    proof (cases "jobUrl j")
      case None
      then show ?thesis by (simp add: url_duplicate_def u)
    next
      case (Some w)
      show ?thesis
      proof (cases "w = []")
        case True
        with assms(1) u v j Some show ?thesis
          by (auto simp add: url_duplicate_def toLowerCase_Nil trim_Nil)
      next
        case False
        with Some u v show ?thesis by (simp add: url_duplicate_def)
      qed
    qed
  qed
  then have eq: "first_index ?p (jobs s) = first_index (url_duplicate u) (jobs s)"
    by (rule first_index_cong)
  have "findIndex (url_matches v) (jobs s)
          = Inr (case first_index ?p (jobs s) of Some k \<Rightarrow> k | None \<Rightarrow> - 1)"
    by (rule findIndex_pure) (simp add: url_matches_def)
  then have url: "findIndex (url_matches v) (jobs s)
          = Inr (case first_index (url_duplicate u) (jobs s) of Some k \<Rightarrow> k | None \<Rightarrow> - 1)"
    by (simp only: eq)
  show ?thesis
  proof (cases "first_index (url_duplicate u) (jobs s)")
    case (Some k)
    with url first_index_nonneg [OF Some] returns u v show ?thesis
      by (auto simp add: checkDuplicate_def checkDuplicate_spec_def)
  next
    case None
    with url returns u v
    obtain titleIndex where ti: "findIndex (title_matches c t) (jobs s) = Inr titleIndex"
      and r: "r = (if titleIndex \<noteq> - 1 then Some titleIndex else None)"
      by (auto simp add: checkDuplicate_def split: sum.splits)
    from findIndex_returns [OF ti]
    have "titleIndex = (case first_index (title_duplicate c t) (jobs s) of
                          Some k \<Rightarrow> k | None \<Rightarrow> - 1)"
      by (simp add: first_index_title)
    with r None show ?thesis
      by (auto simp add: checkDuplicate_spec_def split: option.splits dest: first_index_nonneg)
  qed
qed

text \<open>
  The theorem at work, on the URLs of the specification's example: a record with the URL
  \<open>https://x.com/a\<close> is found for a candidate of another company and title whose URL is
  \<open>" HTTPS://X.COM/A "\<close>.
\<close>

theorem checkDuplicate_meets_spec_witness:
  "trim (toLowerCase '' HTTPS://X.COM/A '') \<noteq> []
   \<and> checkDuplicate (ex_tracker [ex_job ''Acme'' ''Engineer'' (Some ''https://x.com/a'')] None)
         ''Globex'' ''Analyst'' (Some '' HTTPS://X.COM/A '') = Inr (Some 0)
   \<and> checkDuplicate_spec [ex_job ''Acme'' ''Engineer'' (Some ''https://x.com/a'')]
         ''Globex'' ''Analyst'' (Some '' HTTPS://X.COM/A '') = Some 0"
proof -
  have url: "trim (toLowerCase '' HTTPS://X.COM/A '') \<noteq> []"
    by code_simp
  have found: "checkDuplicate
                 (ex_tracker [ex_job ''Acme'' ''Engineer'' (Some ''https://x.com/a'')] None)
                 ''Globex'' ''Analyst'' (Some '' HTTPS://X.COM/A '') = Inr (Some 0)"
    by code_simp
  have js: "jobs (ex_tracker [ex_job ''Acme'' ''Engineer'' (Some ''https://x.com/a'')] None)
              = [ex_job ''Acme'' ''Engineer'' (Some ''https://x.com/a'')]"
    by (simp add: ex_tracker_def)
  from checkDuplicate_meets_spec
         [where s = "ex_tracker [ex_job ''Acme'' ''Engineer'' (Some ''https://x.com/a'')] None"
            and u = "Some '' HTTPS://X.COM/A ''" and c = "''Globex''" and t = "''Analyst''"
            and r = "Some 0"]
       url found
  show ?thesis
    by (simp add: js)
qed

section \<open>Adding a job\<close>

text \<open>
  Claim C2, as stated: for any store state, calling \<open>addJob\<close> twice with the same company
  and title and no URL leaves exactly one such record in the collection. The tracker takes
  the array of the data file as it is, so a file that holds two records of that company and
  title gives a collection that holds two of them: both calls return index 0, and two such
  records remain. Nor do both calls return the same index when the data file cannot be
  written: the first call appends the record in memory and rejects with the write error, the
  second finds the record and returns 0.
\<close>

theorem addJob_twice_preexisting_duplicates:
  "fst (addJob (new_JobTracker (Text (Json (JArray [ex_job ''Acme'' ''Engineer'' None,
                                                      ex_job ''Acme'' ''Engineer'' None]))) None)
          (ex_candidate ''Acme'' ''Engineer'' None) ''2024-02-02T00:00:00.000Z'') = Inr 0
   \<and> fst (addJob
            (snd (addJob (new_JobTracker (Text (Json (JArray [ex_job ''Acme'' ''Engineer'' None,
                                                               ex_job ''Acme'' ''Engineer'' None]))) None)
                   (ex_candidate ''Acme'' ''Engineer'' None) ''2024-02-02T00:00:00.000Z''))
            (ex_candidate ''Acme'' ''Engineer'' None) ''2024-02-03T00:00:00.000Z'') = Inr 0
   \<and> count_title ''Acme'' ''Engineer''
         (jobs (snd (addJob
            (snd (addJob (new_JobTracker (Text (Json (JArray [ex_job ''Acme'' ''Engineer'' None,
                                                               ex_job ''Acme'' ''Engineer'' None]))) None)
                   (ex_candidate ''Acme'' ''Engineer'' None) ''2024-02-02T00:00:00.000Z''))
            (ex_candidate ''Acme'' ''Engineer'' None) ''2024-02-03T00:00:00.000Z''))) = 2
   \<and> fst (addJob ex_readonly ex_acme ''2024-02-02T00:00:00.000Z'')
       = Inl (ErrnoException ''EACCES'')
   \<and> fst (addJob (snd (addJob ex_readonly ex_acme ''2024-02-02T00:00:00.000Z'')) ex_acme
            ''2024-02-03T00:00:00.000Z'') = Inr 0"
  by code_simp

text \<open>
  Claim C2, amended. If duplicate detection finds a record, \<open>addJob\<close> returns its index and
  leaves the collection and the data file as initialization left them (the returned state
  differs by the logged line only). Hence, when a call of \<open>addJob\<close> without a URL returns an
  index, a second call with the same company and title and no URL returns the same index
  and changes neither the collection nor the file; and the collection then holds as many
  records of that company and title as it held before the first call, or one if it held
  none.
\<close>

theorem addJob_idempotent_on_duplicates:
  "(checkDuplicate (after_initialize s) (company jd) (jobTitle jd) (jobUrl jd) = Inr (Some i) \<longrightarrow>
      addJob s jd now = (Inr i, log (JobExists i (jobTitle jd) (company jd)) (after_initialize s))
      \<and> jobs (snd (addJob s jd now)) = jobs (after_initialize s)
      \<and> DATA_FILE (snd (addJob s jd now)) = DATA_FILE (after_initialize s))
   \<and> (\<not> truthy (jobUrl jd) \<and> \<not> truthy (jobUrl jd2)
        \<and> company jd2 = company jd \<and> jobTitle jd2 = jobTitle jd
        \<and> addJob s jd now = (Inr idx, s1) \<longrightarrow>
      addJob s1 jd2 now2 = (Inr idx, log (JobExists idx (jobTitle jd) (company jd)) s1)
      \<and> jobs (snd (addJob s1 jd2 now2)) = jobs s1
      \<and> DATA_FILE (snd (addJob s1 jd2 now2)) = DATA_FILE s1
      \<and> count_title (company jd) (jobTitle jd) (jobs s1)
          = max 1 (count_title (company jd) (jobTitle jd) (jobs (after_initialize s))))"
proof (intro conjI impI)
  assume "checkDuplicate (after_initialize s) (company jd) (jobTitle jd) (jobUrl jd) = Inr (Some i)"
  from addJob_duplicate [OF this, of now]
  show "addJob s jd now = (Inr i, log (JobExists i (jobTitle jd) (company jd)) (after_initialize s))"
    and "jobs (snd (addJob s jd now)) = jobs (after_initialize s)"
    and "DATA_FILE (snd (addJob s jd now)) = DATA_FILE (after_initialize s)"
    by simp_all
next
  assume hyp: "\<not> truthy (jobUrl jd) \<and> \<not> truthy (jobUrl jd2)
        \<and> company jd2 = company jd \<and> jobTitle jd2 = jobTitle jd
        \<and> addJob s jd now = (Inr idx, s1)"
  then have nourl: "\<not> truthy (jobUrl jd)" and nourl2: "\<not> truthy (jobUrl jd2)"
    and same: "company jd2 = company jd" "jobTitle jd2 = jobTitle jd"
    and first: "addJob s jd now = (Inr idx, s1)"
    by simp_all
  let ?c = "jobs (after_initialize s)"
  let ?p = "title_duplicate (company jd) (jobTitle jd)"
  let ?m = "title_matches (company jd) (jobTitle jd)"
  have found: "findIndex ?m (jobs s1) = Inr idx \<and> idx \<noteq> - 1 \<and> initialized s1
               \<and> count_title (company jd) (jobTitle jd) (jobs s1)
                   = max 1 (count_title (company jd) (jobTitle jd) ?c)"
  proof (cases "checkDuplicate (after_initialize s) (company jd) (jobTitle jd) (jobUrl jd)")
    case (Inl e)
    from addJob_throws [OF Inl, of now] first show ?thesis by simp
  next
    case (Inr r)
    show ?thesis
    proof (cases r)
      case (Some i)
      with Inr have dup: "checkDuplicate (after_initialize s) (company jd) (jobTitle jd) (jobUrl jd)
                            = Inr (Some i)"
        by simp
      from addJob_duplicate [OF dup, of now] first
      have idx: "idx = i"
        and s1: "s1 = log (JobExists i (jobTitle jd) (company jd)) (after_initialize s)"
        by auto
      from checkDuplicate_no_url_returns [OF nourl dup]
      have fi: "first_index ?p ?c = Some i" by simp
      from dup nourl have "findIndex ?m ?c = Inr i \<and> i \<noteq> - 1"
        by (auto simp add: checkDuplicate_no_url split: sum.splits if_splits)
      with first_index_Some_filter [OF fi] show ?thesis
        by (simp add: count_title_def s1 idx initialized_after_initialize)
    next
      case None
      with Inr have none: "checkDuplicate (after_initialize s) (company jd) (jobTitle jd) (jobUrl jd)
                             = Inr None"
        by simp
      from checkDuplicate_no_url_returns [OF nourl none]
      have fnone: "first_index ?p ?c = None" by simp
      show ?thesis
      proof (cases "write_error s")
        case (Some c)
        from addJob_new_fails [OF none Some, of now] first show ?thesis by auto
      next
        case wNone: None
        from addJob_new [OF none wNone, of now] first
        have idx: "idx = int (length ?c)"
          and js: "jobs s1 = ?c @ [newJob jd now]"
          and ini: "initialized s1"
          by auto
        from findIndex_snoc [OF checkDuplicate_no_url_None [OF nourl none] title_matches_newJob]
          first_index_None_filter [OF fnone] title_duplicate_newJob [of jd now] ini
        show ?thesis
          by (simp add: count_title_def js idx)
      qed
    qed
  qed
  then have ini: "after_initialize s1 = s1"
    by (simp add: after_initialize_initialized)
  from found nourl2 same
  have "checkDuplicate (after_initialize s1) (company jd2) (jobTitle jd2) (jobUrl jd2)
          = Inr (Some idx)"
    by (simp add: ini checkDuplicate_no_url)
  from addJob_duplicate [OF this, of now2] same
  have second: "addJob s1 jd2 now2 = (Inr idx, log (JobExists idx (jobTitle jd) (company jd)) s1)"
    by (simp add: ini)
  then show "addJob s1 jd2 now2 = (Inr idx, log (JobExists idx (jobTitle jd) (company jd)) s1)"
    and "jobs (snd (addJob s1 jd2 now2)) = jobs s1"
    and "DATA_FILE (snd (addJob s1 jd2 now2)) = DATA_FILE s1"
    by simp_all
  from found show "count_title (company jd) (jobTitle jd) (jobs s1)
          = max 1 (count_title (company jd) (jobTitle jd) (jobs (after_initialize s)))"
    by simp
qed

text \<open>
  The theorem at work: on a fresh tracker without a data file the first call appends
  record 0, and the second call, here with the empty string as URL, finds it.
\<close>

theorem addJob_idempotent_on_duplicates_witness:
  "checkDuplicate (after_initialize ex_after_first) ''Acme'' ''Engineer'' None = Inr (Some 0)
   \<and> addJob ex_after_first ex_acme ''2024-02-03T00:00:00.000Z''
       = (Inr 0, log (JobExists 0 ''Engineer'' ''Acme'') (after_initialize ex_after_first))
   \<and> addJob ex_fresh ex_acme ''2024-02-02T00:00:00.000Z'' = (Inr 0, ex_after_first)
   \<and> addJob ex_after_first ex_acme_blank ''2024-02-03T00:00:00.000Z''
       = (Inr 0, log (JobExists 0 ''Engineer'' ''Acme'') ex_after_first)
   \<and> count_title ''Acme'' ''Engineer'' (jobs ex_after_first) = 1"
proof -
  have vals: "company ex_acme = ''Acme''" "jobTitle ex_acme = ''Engineer''" "jobUrl ex_acme = None"
    "company ex_acme_blank = ''Acme''" "jobTitle ex_acme_blank = ''Engineer''"
    "jobUrl ex_acme_blank = Some []"
    by (simp_all add: ex_acme_def ex_acme_blank_def ex_candidate_def)
  have dup: "checkDuplicate (after_initialize ex_after_first) ''Acme'' ''Engineer'' None
               = Inr (Some 0)"
    by code_simp
  have "fst (addJob ex_fresh ex_acme ''2024-02-02T00:00:00.000Z'') = Inr 0"
    by code_simp
  then have first: "addJob ex_fresh ex_acme ''2024-02-02T00:00:00.000Z'' = (Inr 0, ex_after_first)"
    by (simp add: ex_after_first_def prod_eq_iff)
  have before: "count_title ''Acme'' ''Engineer'' (jobs (after_initialize ex_fresh)) = 0"
    by code_simp
  from addJob_idempotent_on_duplicates
         [where s = ex_after_first and jd = ex_acme and i = 0
            and now = "''2024-02-03T00:00:00.000Z''"]
       addJob_idempotent_on_duplicates
         [where s = ex_fresh and jd = ex_acme and ?jd2.0 = ex_acme_blank and idx = 0
            and ?s1.0 = ex_after_first and now = "''2024-02-02T00:00:00.000Z''"
            and ?now2.0 = "''2024-02-03T00:00:00.000Z''"]
       dup first before
  show ?thesis
    by (simp add: vals)
qed

text \<open>
  Claim C3, as stated: for every candidate that is not a duplicate, \<open>addJob\<close> appends the
  record, persists the collection and returns the new index. When the data file cannot be
  written, \<open>saveDataInternal\<close> logs the error and throws it again: for a candidate that is no
  duplicate by the code or by the rule, \<open>addJob\<close> then rejects with that error instead of
  returning an index, and the file is not written.
\<close>

theorem addJob_write_failure:
  "checkDuplicate (after_initialize ex_readonly) ''Acme'' ''Engineer'' None = Inr None
   \<and> checkDuplicate_spec (jobs (after_initialize ex_readonly)) ''Acme'' ''Engineer'' None = None
   \<and> fst (addJob ex_readonly ex_acme ''2024-02-02T00:00:00.000Z'')
       = Inl (ErrnoException ''EACCES'')
   \<and> DATA_FILE (snd (addJob ex_readonly ex_acme ''2024-02-02T00:00:00.000Z'')) = Missing"
  by code_simp

text \<open>
  Claim C3, amended. For every candidate for which duplicate detection finds no record in
  the collection, and when the data file can be written, \<open>addJob\<close> appends exactly one
  record, which carries the candidate's fields, \<open>status = FOUND\<close> and \<open>lastUpdated = now\<close>;
  it writes the whole collection to the data file and returns the index of the new record,
  the length of the collection after the append minus one; the records held before are
  unchanged.
\<close>

theorem addJob_appends_new_record:
  assumes "checkDuplicate (after_initialize s) (company jd) (jobTitle jd) (jobUrl jd) = Inr None"
    and "write_error s = None"
  shows "\<exists>s'. addJob s jd now = (Inr (int (length (jobs s')) - 1), s')
           \<and> jobs s' = jobs (after_initialize s) @ [newJob jd now]
           \<and> company (last (jobs s')) = Some (company jd)
           \<and> jobTitle (last (jobs s')) = Some (jobTitle jd)
           \<and> location (last (jobs s')) = location jd
           \<and> jobUrl (last (jobs s')) = jobUrl jd
           \<and> salaryRange (last (jobs s')) = salaryRange jd
           \<and> jobBoard (last (jobs s')) = jobBoard jd
           \<and> additionalInfo (last (jobs s')) = additionalInfo jd
           \<and> job_notes (last (jobs s')) = job_notes jd
           \<and> status (last (jobs s')) = FOUND
           \<and> lastUpdated (last (jobs s')) = now
           \<and> take (length (jobs (after_initialize s))) (jobs s') = jobs (after_initialize s)
           \<and> DATA_FILE s' = Text (JSON_stringify (jobs s'))"
proof -
  from addJob_new [OF assms, of now] obtain s' where
    "addJob s jd now = (Inr (int (length (jobs (after_initialize s)))), s')"
    "jobs s' = jobs (after_initialize s) @ [newJob jd now]"
    "DATA_FILE s' = Text (JSON_stringify (jobs s'))"
    by blast
  then show ?thesis
    by (intro exI [of _ s']) (simp add: newJob_def)
qed

text \<open>The theorem at work: the first record of a fresh tracker without a data file.\<close>

theorem addJob_appends_new_record_witness:
  "checkDuplicate (after_initialize ex_fresh) ''Acme'' ''Engineer'' None = Inr None
   \<and> write_error ex_fresh = None
   \<and> (\<exists>s'. addJob ex_fresh ex_acme ''2024-02-02T00:00:00.000Z'' = (Inr 0, s')
          \<and> jobs s' = [newJob ex_acme ''2024-02-02T00:00:00.000Z'']
          \<and> status (last (jobs s')) = FOUND
          \<and> DATA_FILE s' = Text (JSON_stringify (jobs s')))"
proof -
  have vals: "company ex_acme = ''Acme''" "jobTitle ex_acme = ''Engineer''" "jobUrl ex_acme = None"
    by (simp_all add: ex_acme_def ex_candidate_def)
  have none: "checkDuplicate (after_initialize ex_fresh) ''Acme'' ''Engineer'' None = Inr None"
    by code_simp
  have w: "write_error ex_fresh = None"
    by (simp add: ex_fresh_def new_JobTracker_def)
  have empty: "jobs (after_initialize ex_fresh) = []"
    by code_simp
  from addJob_appends_new_record
         [where s = ex_fresh and jd = ex_acme and now = "''2024-02-02T00:00:00.000Z''"]
       none w
  obtain s' where "addJob ex_fresh ex_acme ''2024-02-02T00:00:00.000Z''
                     = (Inr (int (length (jobs s')) - 1), s')"
    and "jobs s' = jobs (after_initialize ex_fresh) @ [newJob ex_acme ''2024-02-02T00:00:00.000Z'']"
    and "status (last (jobs s')) = FOUND"
    and "DATA_FILE s' = Text (JSON_stringify (jobs s'))"
    by (auto simp add: vals)
  with none w empty show ?thesis
    by (intro conjI exI [of _ s']) simp_all
qed

section \<open>Initialization\<close>

text \<open>
  Claim C4: initialization never raises to its caller. When the data file does not exist
  the tracker starts with an empty collection and logs no error; when the file is not JSON,
  or cannot be read for another reason than \<open>ENOENT\<close>, the tracker logs the error and starts
  with an empty collection; and on an initialized tracker \<open>initialize\<close> does nothing, so
  that a second call is a no-op.
\<close>

theorem initialize_never_fails:
  "fst (initialize s) = Inr ()
   \<and> (\<exists>js. fst (loadData s) = Inr js)
   \<and> initialize (after_initialize s) = (Inr (), after_initialize s)
   \<and> (\<not> initialized s \<and> DATA_FILE s = Missing \<longrightarrow>
        jobs (after_initialize s) = []
        \<and> logged (after_initialize s) = logged s @ [Initialized 0])
   \<and> (\<not> initialized s \<and> DATA_FILE s = Text Invalid \<longrightarrow>
        jobs (after_initialize s) = []
        \<and> logged (after_initialize s) = logged s @ [ErrorLoading SyntaxError, Initialized 0])
   \<and> (\<not> initialized s \<and> DATA_FILE s = Unreadable c \<and> c \<noteq> ''ENOENT'' \<longrightarrow>
        jobs (after_initialize s) = []
        \<and> logged (after_initialize s)
            = logged s @ [ErrorLoading (ErrnoException c), Initialized 0])
   \<and> (initialized s \<longrightarrow> initialize s = (Inr (), s))"
proof -
  have "\<not> initialized s \<Longrightarrow> DATA_FILE s = Missing \<Longrightarrow>
        jobs (after_initialize s) = []
        \<and> logged (after_initialize s) = logged s @ [Initialized 0]"
    by (simp add: after_initialize_def initialize_def loadData_Missing log_def)
  moreover have "\<not> initialized s \<Longrightarrow> DATA_FILE s = Text Invalid \<Longrightarrow>
        jobs (after_initialize s) = []
        \<and> logged (after_initialize s) = logged s @ [ErrorLoading SyntaxError, Initialized 0]"
    by (simp add: after_initialize_def initialize_def loadData_Invalid log_def)
  moreover have "\<not> initialized s \<Longrightarrow> DATA_FILE s = Unreadable c \<Longrightarrow> c \<noteq> ''ENOENT'' \<Longrightarrow>
        jobs (after_initialize s) = []
        \<and> logged (after_initialize s)
            = logged s @ [ErrorLoading (ErrnoException c), Initialized 0]"
    by (simp add: after_initialize_def initialize_def loadData_Unreadable log_def)
  moreover have "initialize (after_initialize s) = (Inr (), after_initialize s)"
    by (simp add: initialize_initialized initialized_after_initialize)
  ultimately show ?thesis
    using initialize_never_raises [of s] loadData_never_raises [of s]
      initialize_initialized [of s]
    by blast
qed

text \<open>
  The theorem at work on fresh trackers with a missing, a malformed and an unreadable data
  file, and on an initialized tracker.
\<close>

theorem initialize_never_fails_witness:
  "jobs (after_initialize (new_JobTracker Missing None :: unit JobTracker)) = []
   \<and> logged (after_initialize (new_JobTracker Missing None :: unit JobTracker)) = [Initialized 0]
   \<and> jobs (after_initialize (new_JobTracker (Text Invalid) None :: unit JobTracker)) = []
   \<and> logged (after_initialize (new_JobTracker (Text Invalid) None :: unit JobTracker))
       = [ErrorLoading SyntaxError, Initialized 0]
   \<and> jobs (after_initialize (new_JobTracker (Unreadable ''EACCES'') None :: unit JobTracker)) = []
   \<and> logged (after_initialize (new_JobTracker (Unreadable ''EACCES'') None :: unit JobTracker))
       = [ErrorLoading (ErrnoException ''EACCES''), Initialized 0]
   \<and> initialize ex_two = (Inr (), ex_two)"
  using initialize_never_fails [where s = "new_JobTracker Missing None :: unit JobTracker"]
    initialize_never_fails [where s = "new_JobTracker (Text Invalid) None :: unit JobTracker"]
    initialize_never_fails [where s = "new_JobTracker (Unreadable ''EACCES'') None :: unit JobTracker"
                              and c = "''EACCES''"]
    initialize_never_fails [where s = ex_two]
  by (simp add: new_JobTracker_def ex_two_def ex_tracker_def)

text \<open>
  Claim C5, as stated: a data file holding a JSON object is converted, written back as an
  array and used from then on, so that an object of two entries gives a collection of
  length two. The write of the migration stands inside the \<open>try\<close> block of \<open>loadData\<close>: when
  it fails, the \<open>catch\<close> takes the error for a load error and returns the empty list. The
  tracker then holds no record, and the file still holds the object.
\<close>

theorem legacy_migration_write_failure:
  "jobs (after_initialize (ex_legacy (Some ''EACCES''))) = []
   \<and> DATA_FILE (after_initialize (ex_legacy (Some ''EACCES''))) = DATA_FILE (ex_legacy (Some ''EACCES''))
   \<and> DATA_FILE (ex_legacy (Some ''EACCES''))
       = Text (Json (JObject [(''0'', ex_job ''Acme'' ''Engineer'' None),
                              (''1'', ex_job ''Globex'' ''Analyst'' None)]))"
  by code_simp

text \<open>
  Claim C5, amended. If on load the data file holds a JSON object and the file can be
  written, the tracker takes the values of the object in enumeration order as its
  collection, writes them back to the file as a JSON array at once, and is initialized with
  them; an object of two entries gives a collection of length two.
\<close>

theorem legacy_migration:
  assumes "\<not> initialized s" and "DATA_FILE s = Text (Json (JObject obj))"
    and "write_error s = None"
  shows "fst (initialize s) = Inr ()
         \<and> jobs (after_initialize s) = map snd obj
         \<and> length (jobs (after_initialize s)) = length obj
         \<and> DATA_FILE (after_initialize s) = Text (Json (JArray (map snd obj)))
         \<and> initialized (after_initialize s)"
  using assms
  by (simp add: after_initialize_def initialize_def loadData_JObject log_def
      JSON_stringify_def Object_values_def)

text \<open>The theorem at work on the object with the keys \<open>"0"\<close> and \<open>"1"\<close>.\<close>

theorem legacy_migration_witness:
  "\<not> initialized (ex_legacy None)
   \<and> write_error (ex_legacy None) = None
   \<and> jobs (after_initialize (ex_legacy None))
       = [ex_job ''Acme'' ''Engineer'' None, ex_job ''Globex'' ''Analyst'' None]
   \<and> length (jobs (after_initialize (ex_legacy None))) = 2
   \<and> DATA_FILE (after_initialize (ex_legacy None))
       = Text (Json (JArray [ex_job ''Acme'' ''Engineer'' None, ex_job ''Globex'' ''Analyst'' None]))"
  using legacy_migration
          [where s = "ex_legacy None"
             and obj = "[(''0'', ex_job ''Acme'' ''Engineer'' None),
                         (''1'', ex_job ''Globex'' ''Analyst'' None)]"]
  by (simp add: ex_legacy_def new_JobTracker_def)

section \<open>Updating a record\<close>

text \<open>
  Claim C6: for every index outside \<open>[0, length)\<close>, \<open>updateJobStatus\<close> and \<open>addNote\<close> return
  \<open>false\<close> and do not throw, and the collection is unchanged.

  The code does not do this for the index \<open>NaN\<close>, which lies outside every interval: both
  comparisons of the guard, \<open>jobIndex < 0\<close> and \<open>jobIndex >= this.jobs.length\<close>, are false,
  the guard is passed, \<open>this.jobs[NaN]\<close> is \<open>undefined\<close>, and reading \<open>.status\<close> (in
  \<open>updateJobStatus\<close>) or \<open>.notes\<close> (in \<open>addNote\<close>) of it throws a \<open>TypeError\<close>. The collection is
  unchanged, but the call throws where the claim has it return \<open>false\<close>. \<open>getJob\<close>, the
  query beside them, answers \<open>null\<close> for the same index.
\<close>

theorem nan_index_throws:
  "\<not> number_less NaN (Number 0)
   \<and> \<not> number_greater_eq NaN (Number (real (length (jobs ex_two))))
   \<and> updateJobStatus ex_two NaN APPLIED None ''2024-03-03T00:00:00.000Z''
       = (Inl TypeError, ex_two)
   \<and> addNote ex_two NaN ''called recruiter'' ''2024-03-03T00:00:00.000Z''
         ''2024-03-03T00:00:00.001Z''
       = (Inl TypeError, ex_two)
   \<and> getJob ex_two NaN = None"
proof -
  have ini: "after_initialize ex_two = ex_two"
    by (simp add: after_initialize_initialized ex_two_def ex_tracker_def)
  have undef: "array_get (jobs (after_initialize ex_two)) NaN = None"
    by (simp add: array_get_def)
  from updateJobStatus_undefined [of NaN ex_two, OF _ _ undef]
    addNote_undefined [of NaN ex_two, OF _ _ undef]
  show ?thesis
    by (simp add: ini getJob_def array_get_def)
qed

text \<open>
  Property X2. For every index the guard catches, that is every number below 0 or at
  least the length, integer or not, and both infinities, \<open>updateJobStatus\<close> and \<open>addNote\<close>
  return \<open>false\<close> and do not throw, and the collection is unchanged: no record is assigned
  to, none is appended and nothing is written. The state they return is the one
  initialization left, with the logged line added; on an initialized tracker that is the
  state they were called in.
\<close>

theorem out_of_range_fails:
  assumes "number_less jobIndex (Number 0)
           \<or> number_greater_eq jobIndex (Number (real (length (jobs (after_initialize s)))))"
  shows "updateJobStatus s jobIndex st n now
           = (Inr False, log (IndexOutOfRange jobIndex) (after_initialize s))
         \<and> addNote s jobIndex n' now1 now2
           = (Inr False, log (IndexOutOfRange jobIndex) (after_initialize s))
         \<and> jobs (log (IndexOutOfRange jobIndex) (after_initialize s)) = jobs (after_initialize s)
         \<and> DATA_FILE (log (IndexOutOfRange jobIndex) (after_initialize s))
             = DATA_FILE (after_initialize s)
         \<and> (initialized s \<longrightarrow> after_initialize s = s)"
  using updateJobStatus_out_of_range [OF assms] addNote_out_of_range [OF assms]
  by (simp add: after_initialize_initialized)

text \<open>
  The theorem at work at the indices \<open>-1\<close>, \<open>2\<close> and \<open>Infinity\<close> of a collection of two
  records.
\<close>

theorem out_of_range_fails_witness:
  "updateJobStatus ex_two (Number (- 1)) APPLIED None ''2024-03-03T00:00:00.000Z''
     = (Inr False, log (IndexOutOfRange (Number (- 1))) ex_two)
   \<and> updateJobStatus ex_two (Number 2) APPLIED None ''2024-03-03T00:00:00.000Z''
     = (Inr False, log (IndexOutOfRange (Number 2)) ex_two)
   \<and> addNote ex_two (Number (- 1)) ''called recruiter'' ''2024-03-03T00:00:00.000Z''
        ''2024-03-03T00:00:00.001Z''
     = (Inr False, log (IndexOutOfRange (Number (- 1))) ex_two)
   \<and> addNote ex_two Infinity ''called recruiter'' ''2024-03-03T00:00:00.000Z''
        ''2024-03-03T00:00:00.001Z''
     = (Inr False, log (IndexOutOfRange Infinity) ex_two)
   \<and> jobs (log (IndexOutOfRange (Number 2)) ex_two) = jobs ex_two
   \<and> DATA_FILE (log (IndexOutOfRange (Number 2)) ex_two) = DATA_FILE ex_two
   \<and> length (jobs ex_two) = 2
   \<and> initialized ex_two
   \<and> after_initialize ex_two = ex_two"
proof -
  have ini: "initialized ex_two" and len: "length (jobs ex_two) = 2"
    by (simp_all add: ex_two_def ex_tracker_def)
  then have same: "after_initialize ex_two = ex_two"
    by (simp add: after_initialize_initialized)
  from out_of_range_fails [where s = ex_two and jobIndex = "Number (- 1)"]
       out_of_range_fails [where s = ex_two and jobIndex = "Number 2"]
       out_of_range_fails [where s = ex_two and jobIndex = Infinity]
       len ini
  show ?thesis
    by (simp add: same)
qed

text \<open>
  Claim C7: when \<open>updateJobStatus\<close> returns \<open>true\<close>, the index is an integer in range, the
  collection is the one before the call with \<open>status\<close> and \<open>lastUpdated\<close> of the record at
  that index set to the new status and the current time, every other record is unchanged,
  and the notes of the record are the notes it had, whatever note was passed.
\<close>

theorem updateJobStatus_frame:
  assumes "updateJobStatus s jobIndex st n now = (Inr True, s')"
  shows "\<exists>i. array_index jobIndex = Some i \<and> i < length (jobs (after_initialize s))
         \<and> jobs s' = (jobs (after_initialize s))
               [i := (jobs (after_initialize s) ! i)\<lparr>status := st, lastUpdated := now\<rparr>]
         \<and> job_notes (jobs s' ! i) = job_notes (jobs (after_initialize s) ! i)
         \<and> (\<forall>k. k \<noteq> i \<longrightarrow> jobs s' ! k = jobs (after_initialize s) ! k)"
proof -
  have guard: "\<not> (number_less jobIndex (Number 0)
                  \<or> number_greater_eq jobIndex
                       (Number (real (length (jobs (after_initialize s))))))"
  proof
    assume "number_less jobIndex (Number 0)
            \<or> number_greater_eq jobIndex (Number (real (length (jobs (after_initialize s)))))"
    from updateJobStatus_out_of_range [OF this, of st n now] assms show False by simp
  qed
  have "array_get (jobs (after_initialize s)) jobIndex \<noteq> None"
  proof
    assume "array_get (jobs (after_initialize s)) jobIndex = None"
    with guard updateJobStatus_undefined [of jobIndex s st n now] assms show False by simp
  qed
  then obtain i job where get: "array_get (jobs (after_initialize s)) jobIndex = Some (i, job)"
    by auto
  from updateJobStatus_in_range_jobs [OF get, of st n now] assms
  have js: "jobs s' = (jobs (after_initialize s))
               [i := (jobs (after_initialize s) ! i)\<lparr>status := st, lastUpdated := now\<rparr>]"
    by simp
  from array_get_in_range [OF get]
  have "array_index jobIndex = Some i" and "i < length (jobs (after_initialize s))"
    by simp_all
  with js show ?thesis by simp
qed

text \<open>The theorem at work: a status update with a note, on the second of two records.\<close>

theorem updateJobStatus_frame_witness:
  "fst (updateJobStatus ex_two (Number 1) APPLIED (Some ''called recruiter'')
          ''2024-03-03T00:00:00.000Z'')
     = Inr True
   \<and> array_index (Number 1) = Some 1
   \<and> jobs (snd (updateJobStatus ex_two (Number 1) APPLIED (Some ''called recruiter'')
                  ''2024-03-03T00:00:00.000Z''))
       = [ex_job ''Acme'' ''Engineer'' None,
          (ex_job ''Globex'' ''Analyst'' None)
            \<lparr>status := APPLIED, lastUpdated := ''2024-03-03T00:00:00.000Z''\<rparr>]
   \<and> job_notes (jobs (snd (updateJobStatus ex_two (Number 1) APPLIED (Some ''called recruiter'')
                             ''2024-03-03T00:00:00.000Z'')) ! 1) = None"
proof -
  have ok: "fst (updateJobStatus ex_two (Number 1) APPLIED (Some ''called recruiter'')
                   ''2024-03-03T00:00:00.000Z'') = Inr True"
    by code_simp
  then have run: "updateJobStatus ex_two (Number 1) APPLIED (Some ''called recruiter'')
                    ''2024-03-03T00:00:00.000Z''
                  = (Inr True,
                     snd (updateJobStatus ex_two (Number 1) APPLIED (Some ''called recruiter'')
                            ''2024-03-03T00:00:00.000Z''))"
    by (simp add: prod_eq_iff)
  have ini: "after_initialize ex_two = ex_two"
    by (simp add: after_initialize_initialized ex_two_def ex_tracker_def)
  have js: "jobs ex_two = [ex_job ''Acme'' ''Engineer'' None, ex_job ''Globex'' ''Analyst'' None]"
    by (simp add: ex_two_def ex_tracker_def)
  have nts: "job_notes (ex_job ''Globex'' ''Analyst'' None) = None"
    by (simp add: ex_job_def)
  from updateJobStatus_frame [OF run] ok show ?thesis
    by (auto simp add: ini js nts)
qed

section \<open>Records keep their index\<close>

text \<open>
  Claim C8: no operation reorders or removes records. After \<open>addJob\<close>, \<open>updateJobStatus\<close> or
  \<open>addNote\<close>, whether it returns or throws, every index of the collection the operation
  started from (the collection after its \<open>await this.initialize()\<close>, which on an initialized
  tracker is the collection before the call) holds the same record, up to the fields
  assigned in place; the length is unchanged, except that \<open>addJob\<close> of a candidate for which
  no duplicate is found makes it one longer. The queries are functions of the collection;
  \<open>printSummary\<close> adds to the log only.
\<close>

theorem identity_by_index:
  "keeps_records (jobs (after_initialize s)) (jobs (snd (addJob s jd now)))
   \<and> length (jobs (snd (addJob s jd now)))
       = (if checkDuplicate (after_initialize s) (company jd) (jobTitle jd) (jobUrl jd) = Inr None
          then Suc (length (jobs (after_initialize s)))
          else length (jobs (after_initialize s)))
   \<and> keeps_records (jobs (after_initialize s)) (jobs (snd (updateJobStatus s jobIndex st n now)))
   \<and> length (jobs (snd (updateJobStatus s jobIndex st n now))) = length (jobs (after_initialize s))
   \<and> keeps_records (jobs (after_initialize s)) (jobs (snd (addNote s jobIndex n' now1 now2)))
   \<and> length (jobs (snd (addNote s jobIndex n' now1 now2))) = length (jobs (after_initialize s))
   \<and> (initialized s \<longrightarrow> after_initialize s = s)"
  using updateJobStatus_keeps [of s jobIndex st n now] addNote_keeps [of s jobIndex n' now1 now2]
  by (auto simp add: addJob_jobs keeps_records_refl keeps_records_snoc
      after_initialize_initialized split: option.splits sum.splits)

text \<open>The theorem at work on a collection of two records.\<close>

theorem identity_by_index_witness:
  "keeps_records (jobs ex_two)
     (jobs (snd (addJob ex_two (ex_candidate ''Initech'' ''Tester'' None) ''2024-03-03T00:00:00.000Z'')))
   \<and> length (jobs (snd (addJob ex_two (ex_candidate ''Initech'' ''Tester'' None)
                           ''2024-03-03T00:00:00.000Z''))) = 3
   \<and> keeps_records (jobs ex_two)
       (jobs (snd (updateJobStatus ex_two (Number 1) APPLIED None ''2024-03-03T00:00:00.000Z'')))
   \<and> keeps_records (jobs ex_two)
       (jobs (snd (addNote ex_two (Number 0) ''called recruiter'' ''2024-03-03T00:00:00.000Z''
                     ''2024-03-03T00:00:00.001Z'')))
   \<and> same_record (jobs ex_two ! 0)
       (jobs (snd (addNote ex_two (Number 0) ''called recruiter'' ''2024-03-03T00:00:00.000Z''
                     ''2024-03-03T00:00:00.001Z'')) ! 0)
   \<and> initialized ex_two
   \<and> after_initialize ex_two = ex_two"
proof -
  have ini0: "initialized ex_two"
    by (simp add: ex_two_def ex_tracker_def)
  with identity_by_index [where s = ex_two] have ini: "after_initialize ex_two = ex_two"
    by simp
  have none: "checkDuplicate ex_two ''Initech'' ''Tester'' None = Inr None"
    by code_simp
  have len: "length (jobs ex_two) = 2"
    by (simp add: ex_two_def ex_tracker_def)
  have vals: "company (ex_candidate ''Initech'' ''Tester'' None) = ''Initech''"
    "jobTitle (ex_candidate ''Initech'' ''Tester'' None) = ''Tester''"
    "jobUrl (ex_candidate ''Initech'' ''Tester'' None) = None"
    by (simp_all add: ex_candidate_def)
  from identity_by_index
         [where s = ex_two and jd = "ex_candidate ''Initech'' ''Tester'' None"
            and now = "''2024-03-03T00:00:00.000Z''" and jobIndex = "Number 1" and st = APPLIED
            and n = None]
       identity_by_index
         [where s = ex_two and jobIndex = "Number 0" and n' = "''called recruiter''"
            and ?now1.0 = "''2024-03-03T00:00:00.000Z''"
            and ?now2.0 = "''2024-03-03T00:00:00.001Z''"]
  have k: "keeps_records (jobs ex_two)
     (jobs (snd (addJob ex_two (ex_candidate ''Initech'' ''Tester'' None) ''2024-03-03T00:00:00.000Z'')))"
    and l: "length (jobs (snd (addJob ex_two (ex_candidate ''Initech'' ''Tester'' None)
                           ''2024-03-03T00:00:00.000Z''))) = 3"
    and u: "keeps_records (jobs ex_two)
       (jobs (snd (updateJobStatus ex_two (Number 1) APPLIED None ''2024-03-03T00:00:00.000Z'')))"
    and a: "keeps_records (jobs ex_two)
       (jobs (snd (addNote ex_two (Number 0) ''called recruiter'' ''2024-03-03T00:00:00.000Z''
                     ''2024-03-03T00:00:00.001Z'')))"
    by (simp_all add: ini none len vals)
  from a len have "same_record (jobs ex_two ! 0)
       (jobs (snd (addNote ex_two (Number 0) ''called recruiter'' ''2024-03-03T00:00:00.000Z''
                     ''2024-03-03T00:00:00.001Z'')) ! 0)"
    by (simp add: keeps_records_def list_all2_conv_all_nth)
  with k l u a ini0 ini show ?thesis by simp
qed

section \<open>Lazy initialization\<close>

text \<open>
  Claim C9, as stated: every public operation, mutating or read-only, that is the first to
  be invoked on a fresh store observes the collection loaded from the data file. The queries
  are synchronous and do not call \<open>initialize\<close>: on a fresh tracker whose data file holds one
  record they see the empty collection.
\<close>

theorem query_on_fresh_tracker:
  "getAllJobs ex_stored = []
   \<and> searchJobs ex_stored ''engineer'' = Inr []
   \<and> getJob ex_stored (Number 0) = None
   \<and> totalJobs (getStatistics ex_stored) = 0
   \<and> jobs (after_initialize ex_stored) = [ex_job ''Acme'' ''Engineer'' None]
   \<and> DATA_FILE ex_stored = Text (Json (JArray [ex_job ''Acme'' ''Engineer'' None]))"
  by code_simp

text \<open>
  Claim C9, amended. The store is created lazily on first access: \<open>getJobTracker\<close> creates
  the tracker at its first call, without reading the data file, and every later caller gets
  that same tracker, in the state the calls before left it. \<open>initialize\<close>, or the first
  mutating operation invoked on an uninitialized store, triggers the load from the data
  file: \<open>addJob\<close>, \<open>updateJobStatus\<close> and \<open>addNote\<close> act on a fresh tracker as they act on the
  tracker \<open>initialize\<close> gives, whose collection is the one \<open>loadData\<close> returned. After that
  the state in memory is authoritative: \<open>initialize\<close> does not read the data file again,
  whatever the file holds by then. The read-only operations (\<open>checkDuplicate\<close>, \<open>getJob\<close>,
  \<open>getJobsByStatus\<close>, \<open>getJobsByCompany\<close>, \<open>searchJobs\<close>, \<open>getStatistics\<close>, \<open>getAllJobs\<close>,
  \<open>printSummary\<close>) do not trigger the load: invoked first on a fresh tracker they observe
  the empty collection, whatever the data file holds.
\<close>

theorem lazy_initialization:
  "getJobTracker (Null f w l) = (new_JobTracker f w)\<lparr>logged := l\<rparr>
   \<and> jobs (getJobTracker (Null f w l)) = []
   \<and> initialized (getJobTracker (Null f w l)) = False
   \<and> getJobTracker (Instance t) = t
   \<and> getJobTracker (snd (call operation m)) = snd (operation (getJobTracker m))
   \<and> addJob s jd now = addJob (after_initialize s) jd now
   \<and> updateJobStatus s jobIndex st n now = updateJobStatus (after_initialize s) jobIndex st n now
   \<and> addNote s jobIndex n' now1 now2 = addNote (after_initialize s) jobIndex n' now1 now2
   \<and> initialized (after_initialize s)
   \<and> (\<not> initialized s \<longrightarrow> (\<exists>s1. loadData s = (Inr (jobs (after_initialize s)), s1)))
   \<and> initialize ((after_initialize s)\<lparr>DATA_FILE := f\<rparr>)
       = (Inr (), (after_initialize s)\<lparr>DATA_FILE := f\<rparr>)
   \<and> checkDuplicate (new_JobTracker f w) c t' u = Inr None
   \<and> getJob (new_JobTracker f w) jobIndex = None
   \<and> getJobsByStatus (new_JobTracker f w) st = []
   \<and> getJobsByCompany (new_JobTracker f w) c = Inr []
   \<and> searchJobs (new_JobTracker f w) q = Inr []
   \<and> getStatistics (new_JobTracker f w) = no_statistics
   \<and> getAllJobs (new_JobTracker f w) = []
   \<and> printSummary (new_JobTracker f w)
       = (new_JobTracker f w)
           \<lparr>logged := [Separator, SummaryTitle, Separator, TotalJobsTracked 0, Separator]\<rparr>"
proof -
  have idem: "after_initialize (after_initialize s) = after_initialize s"
    by (simp add: after_initialize_initialized initialized_after_initialize)
  have "addJob s jd now = addJob (after_initialize s) jd now"
    by (simp add: addJob_def initialize_after idem)
  moreover have "updateJobStatus s jobIndex st n now
                   = updateJobStatus (after_initialize s) jobIndex st n now"
    by (simp add: updateJobStatus_def initialize_after idem)
  moreover have "addNote s jobIndex n' now1 now2
                   = addNote (after_initialize s) jobIndex n' now1 now2"
    by (simp add: addNote_def initialize_after idem)
  moreover have "\<not> initialized s \<Longrightarrow> \<exists>s1. loadData s = (Inr (jobs (after_initialize s)), s1)"
    using loadData_never_raises [of s]
    by (auto simp add: after_initialize_def initialize_def split: prod.splits sum.splits)
  moreover have "initialize ((after_initialize s)\<lparr>DATA_FILE := f\<rparr>)
       = (Inr (), (after_initialize s)\<lparr>DATA_FILE := f\<rparr>)"
    using initialized_after_initialize [of s] by (simp add: initialize_def)
  moreover have "checkDuplicate (new_JobTracker f w) c t' u = Inr None"
    by (simp add: checkDuplicate_def new_JobTracker_def findIndex_def split: option.splits)
  moreover have "getJobTracker (snd (call operation m)) = snd (operation (getJobTracker m))"
    by (simp add: call_def split: prod.splits)
  moreover have "getStatistics (new_JobTracker f w) = no_statistics"
    by (simp add: getStatistics_def new_JobTracker_def no_statistics_def)
  moreover have "printSummary (new_JobTracker f w)
       = (new_JobTracker f w)
           \<lparr>logged := [Separator, SummaryTitle, Separator, TotalJobsTracked 0, Separator]\<rparr>"
    by (simp add: printSummary_def getStatistics_def new_JobTracker_def log_def Let_def)
  moreover have "getJob (new_JobTracker f w) jobIndex = None"
    by (simp add: getJob_def array_get_def new_JobTracker_def split: option.splits)
  ultimately show ?thesis
    by (simp add: initialized_after_initialize getAllJobs_def getJobsByStatus_def
        getJobsByCompany_def searchJobs_def new_JobTracker_def)
qed

text \<open>
  The theorem at work: the first operation on a fresh tracker whose data file holds one
  record is a status update of that record; and the record a first caller adds through
  \<open>getJobTracker\<close> is the collection a later caller of \<open>getJobTracker\<close> reads.
\<close>

theorem lazy_initialization_witness:
  "\<not> initialized ex_stored
   \<and> (\<exists>s1. loadData ex_stored = (Inr [ex_job ''Acme'' ''Engineer'' None], s1))
   \<and> jobs (after_initialize ex_stored) = [ex_job ''Acme'' ''Engineer'' None]
   \<and> fst (updateJobStatus ex_stored (Number 0) APPLIED None ''2024-03-03T00:00:00.000Z'')
       = Inr True
   \<and> getAllJobs
         (getJobTracker
            (snd (call (\<lambda>t. addJob t ex_acme ''2024-02-02T00:00:00.000Z'') (Null Missing None []))))
       = [newJob ex_acme ''2024-02-02T00:00:00.000Z'']"
proof -
  have fresh: "\<not> initialized ex_stored"
    by (simp add: ex_stored_def new_JobTracker_def)
  have js: "jobs (after_initialize ex_stored) = [ex_job ''Acme'' ''Engineer'' None]"
    by code_simp
  have "fst (updateJobStatus (after_initialize ex_stored) (Number 0) APPLIED None
               ''2024-03-03T00:00:00.000Z'')
          = Inr True"
    by code_simp
  moreover have "getAllJobs (snd (addJob (new_JobTracker Missing None :: unit JobTracker) ex_acme
                                    ''2024-02-02T00:00:00.000Z''))
                   = [newJob ex_acme ''2024-02-02T00:00:00.000Z'']"
    by code_simp
  moreover have "(new_JobTracker Missing None :: unit JobTracker)\<lparr>logged := []\<rparr>
                   = new_JobTracker Missing None"
    by (simp add: new_JobTracker_def)
  ultimately show ?thesis
    using lazy_initialization
         [where s = ex_stored and jobIndex = "Number 0" and st = APPLIED and n = None
            and now = "''2024-03-03T00:00:00.000Z''" and f = Missing and w = None and l = "[]"
            and m = "Null Missing None []"
            and operation = "\<lambda>t. addJob t ex_acme ''2024-02-02T00:00:00.000Z''"]
       fresh js
    by simp
qed

section \<open>Queries\<close>




end
